theory Spec2Isabelle
  imports Complex_Main "HOL-Library.Sublist" "HOL-Library.Multiset"
begin

section \<open>Backend: the product routes (backend/routes/products.js)\<close>

text \<open>
  The handlers run after \<open>verifyToken\<close>, so each one receives the caller's identifier
  \<open>req.user.id\<close> as a string. The collection is the list of stored documents in insertion
  order. The database driver is modelled on a reachable database: the only errors it
  raises are the ones the handlers' inputs can cause. JavaScript numbers are modelled as
  reals (only comparisons and equality are used), the value of \<open>Date.now()\<close> as an integer
  number of milliseconds handed to the operation that reads the clock.
\<close>

type_synonym objectId = string
type_synonym timestamp = int

record product =
  p_id :: objectId
  name :: string
  description :: string
  price :: real
  imageUrl :: string
  category :: string
  inStock :: bool
  createdBy :: string
  createdAt :: timestamp
  updatedAt :: timestamp

type_synonym collection = "product list"

text \<open>The six fields every write handler destructures from \<open>req.body\<close>.\<close>

record req_body =
  b_name :: string
  b_description :: string
  b_price :: real
  b_imageUrl :: string
  b_category :: string
  b_inStock :: bool

text \<open>
  Errors thrown by the driver. A \<open>CastError\<close> carries its \<open>kind\<close>, the only property the
  handlers inspect; the other errors have no \<open>kind\<close>.
\<close>

datatype db_error = CastError string | ValidationError | DuplicateKey

fun kind :: "db_error \<Rightarrow> string option" where
  "kind (CastError k) = Some k"
| "kind ValidationError = None"
| "kind DuplicateKey = None"

datatype json =
    ProductsJson "product list"
  | ProductJson product
  | MessageJson string
  | MessageProductJson string "product option"

record response =
  status :: nat
  body :: json

definition not_found :: response where
  "not_found = \<lparr>status = 404, body = MessageJson ''Product not found''\<rparr>"

definition server_error :: response where
  "server_error = \<lparr>status = 500, body = MessageJson ''Server error''\<rparr>"

text \<open>
  The \<open>catch\<close> block shared by the get-by-id, update and delete handlers:
  404 when \<open>error.kind === 'ObjectId'\<close>, 500 otherwise.
\<close>

definition catch_by_id :: "db_error \<Rightarrow> response" where
  "catch_by_id e = (if kind e = Some ''ObjectId'' then not_found else server_error)"

text \<open>
  \<open>Product.findById\<close>. The driver's cast of the request string to an ObjectId is the
  parameter \<open>cast\<close> (\<open>None\<close> for a malformed id, which makes the driver throw a
  \<open>CastError\<close> of kind \<open>ObjectId\<close>); a well-formed id is looked up, \<open>null\<close> being \<open>None\<close>.
\<close>

definition findById ::
  "(string \<Rightarrow> objectId option) \<Rightarrow> collection \<Rightarrow> string \<Rightarrow> db_error + product option" where
  "findById cast docs rid =
     (case cast rid of
        None \<Rightarrow> Inl (CastError ''ObjectId'')
      | Some k \<Rightarrow> Inr (find (\<lambda>p. p_id p = k) docs))"

text \<open>Replacing and removing the one document that matches, the first in the list.\<close>

fun update_first :: "('a \<Rightarrow> bool) \<Rightarrow> ('a \<Rightarrow> 'a) \<Rightarrow> 'a list \<Rightarrow> 'a list" where
  "update_first P f [] = []"
| "update_first P f (x # xs) = (if P x then f x # xs else x # update_first P f xs)"

fun remove_first :: "('a \<Rightarrow> bool) \<Rightarrow> 'a list \<Rightarrow> 'a list" where
  "remove_first P [] = []"
| "remove_first P (x # xs) = (if P x then xs else x # remove_first P xs)"

text \<open>The update document of the PUT handler: the six body fields and \<open>updatedAt: Date.now()\<close>.\<close>

definition apply_update :: "req_body \<Rightarrow> timestamp \<Rightarrow> product \<Rightarrow> product" where
  "apply_update b now p =
     p\<lparr>name := b_name b, description := b_description b, price := b_price b,
       imageUrl := b_imageUrl b, category := b_category b, inStock := b_inStock b,
       updatedAt := now\<rparr>"

text \<open>\<open>Product.findByIdAndUpdate(id, update, {new: true})\<close>: the updated document, or \<open>null\<close>.\<close>

definition findByIdAndUpdate ::
  "(string \<Rightarrow> objectId option) \<Rightarrow> collection \<Rightarrow> string \<Rightarrow> req_body \<Rightarrow> timestamp
     \<Rightarrow> (db_error + product option) \<times> collection" where
  "findByIdAndUpdate cast docs rid b now =
     (case cast rid of
        None \<Rightarrow> (Inl (CastError ''ObjectId''), docs)
      | Some k \<Rightarrow>
          (case find (\<lambda>p. p_id p = k) docs of
             None \<Rightarrow> (Inr None, docs)
           | Some p \<Rightarrow>
               (Inr (Some (apply_update b now p)),
                update_first (\<lambda>q. p_id q = k) (apply_update b now) docs)))"

text \<open>\<open>product.deleteOne()\<close>: removes the document with the id of \<open>product\<close>.\<close>

definition deleteOne :: "product \<Rightarrow> collection \<Rightarrow> collection" where
  "deleteOne p docs = remove_first (\<lambda>q. p_id q = p_id p) docs"

subsection \<open>GET /:id\<close>

definition get_product ::
  "(string \<Rightarrow> objectId option) \<Rightarrow> collection \<Rightarrow> string \<Rightarrow> response" where
  "get_product cast docs rid =
     (case findById cast docs rid of
        Inl e \<Rightarrow> catch_by_id e
      | Inr None \<Rightarrow> not_found
      | Inr (Some p) \<Rightarrow> \<lparr>status = 200, body = ProductJson p\<rparr>)"

subsection \<open>PUT /:id\<close>

definition put_product ::
  "(string \<Rightarrow> objectId option) \<Rightarrow> collection \<Rightarrow> string \<Rightarrow> string \<Rightarrow> req_body \<Rightarrow> timestamp
     \<Rightarrow> response \<times> collection" where
  "put_product cast docs rid uid b now =
     (case findById cast docs rid of
        Inl e \<Rightarrow> (catch_by_id e, docs)
      | Inr None \<Rightarrow> (not_found, docs)
      | Inr (Some p) \<Rightarrow>
          if createdBy p \<noteq> uid
          then (\<lparr>status = 403, body = MessageJson ''Not authorized to update this product''\<rparr>, docs)
          else
            (case findByIdAndUpdate cast docs rid b now of
               (Inl e, docs') \<Rightarrow> (catch_by_id e, docs')
             | (Inr updatedProduct, docs') \<Rightarrow>
                 (\<lparr>status = 200,
                   body = MessageProductJson ''Product updated successfully'' updatedProduct\<rparr>,
                  docs')))"

subsection \<open>DELETE /:id\<close>

definition delete_product ::
  "(string \<Rightarrow> objectId option) \<Rightarrow> collection \<Rightarrow> string \<Rightarrow> string \<Rightarrow> response \<times> collection" where
  "delete_product cast docs rid uid =
     (case findById cast docs rid of
        Inl e \<Rightarrow> (catch_by_id e, docs)
      | Inr None \<Rightarrow> (not_found, docs)
      | Inr (Some p) \<Rightarrow>
          if createdBy p \<noteq> uid
          then (\<lparr>status = 403, body = MessageJson ''Not authorized to delete this product''\<rparr>, docs)
          else (\<lparr>status = 200, body = MessageJson ''Product deleted successfully''\<rparr>,
                deleteOne p docs))"

subsection \<open>POST /\<close>

text \<open>
  Modelled from the spec: the Product schema (backend/models/Product.js) is not among the
  sources, so what \<open>new Product(...)\<close> and \<open>save()\<close> do is taken from the spec's data model:
  the identifier is generated by the system (here the driver's fresh ObjectId \<open>nid\<close>, an
  input), \<open>createdBy\<close> is the value the handler passes, both timestamps are set at insert to
  the same clock reading, \<open>name\<close> and \<open>description\<close> are non-empty text and \<open>price\<close> is a
  non-negative number. A document that breaks the data model, or whose identifier is
  already stored, is refused with an error and nothing is written.
\<close>

definition new_Product :: "req_body \<Rightarrow> string \<Rightarrow> objectId \<Rightarrow> timestamp \<Rightarrow> product" where
  "new_Product b uid nid now =
     \<lparr>p_id = nid, name = b_name b, description = b_description b, price = b_price b,
      imageUrl = b_imageUrl b, category = b_category b, inStock = b_inStock b,
      createdBy = uid, createdAt = now, updatedAt = now\<rparr>"

text \<open>
  Modelled from the spec: the schema's validation is not among the sources; the data
  model asks for non-empty \<open>name\<close> and \<open>description\<close> and a non-negative \<open>price\<close>.
\<close>

definition valid_product :: "product \<Rightarrow> bool" where
  "valid_product p \<longleftrightarrow> name p \<noteq> [] \<and> description p \<noteq> [] \<and> 0 \<le> price p"

text \<open>
  Modelled from the spec: \<open>save()\<close> of a new document validates it against the schema (not
  among the sources), keeps identifiers unique and appends the document to the collection.
\<close>

definition save :: "product \<Rightarrow> collection \<Rightarrow> (db_error + product) \<times> collection" where
  "save p docs =
     (if \<not> valid_product p then (Inl ValidationError, docs)
      else if p_id p \<in> set (map p_id docs) then (Inl DuplicateKey, docs)
      else (Inr p, docs @ [p]))"

text \<open>The handler itself: 201 with the saved product, 500 on any error of \<open>save\<close>.\<close>

definition post_product ::
  "collection \<Rightarrow> string \<Rightarrow> req_body \<Rightarrow> objectId \<Rightarrow> timestamp \<Rightarrow> response \<times> collection" where
  "post_product docs uid b nid now =
     (case save (new_Product b uid nid now) docs of
        (Inl e, docs') \<Rightarrow> (server_error, docs')
      | (Inr product, docs') \<Rightarrow>
          (\<lparr>status = 201,
            body = MessageProductJson ''Product created successfully'' (Some product)\<rparr>,
           docs'))"

text \<open>A create input that meets the data model of the spec.\<close>

definition valid_body :: "req_body \<Rightarrow> bool" where
  "valid_body b \<longleftrightarrow> b_name b \<noteq> [] \<and> b_description b \<noteq> [] \<and> 0 \<le> b_price b"

subsection \<open>GET / and GET /user/me\<close>

text \<open>
  \<open>.sort({createdAt: -1})\<close>: descending by \<open>createdAt\<close>. The store leaves the order of equal
  keys open; the model sorts stably on the negated key. The caller id of \<open>GET /user/me\<close>
  comes from a verified token and is compared with \<open>createdBy\<close> as text.
\<close>

definition sort_createdAt_desc :: "product list \<Rightarrow> product list" where
  "sort_createdAt_desc docs = sort_key (\<lambda>p. - createdAt p) docs"

definition get_products :: "collection \<Rightarrow> response" where
  "get_products docs = \<lparr>status = 200, body = ProductsJson (sort_createdAt_desc docs)\<rparr>"

definition get_user_me :: "collection \<Rightarrow> string \<Rightarrow> response" where
  "get_user_me docs uid =
     \<lparr>status = 200,
      body = ProductsJson (sort_createdAt_desc (filter (\<lambda>p. createdBy p = uid) docs))\<rparr>"

subsection \<open>Sequences of requests\<close>

text \<open>
  One authenticated request to the product routes, with what the environment supplies to
  it: the caller's id, the generated ObjectId of a create, the clock reading of a write.
\<close>

datatype request =
    GetAll
  | GetOne string
  | GetMine string
  | Post string req_body objectId timestamp
  | Put string string req_body timestamp
  | Delete string string

fun handle ::
  "(string \<Rightarrow> objectId option) \<Rightarrow> collection \<Rightarrow> request \<Rightarrow> response \<times> collection" where
  "handle cast docs GetAll = (get_products docs, docs)"
| "handle cast docs (GetOne rid) = (get_product cast docs rid, docs)"
| "handle cast docs (GetMine uid) = (get_user_me docs uid, docs)"
| "handle cast docs (Post uid b nid now) = post_product docs uid b nid now"
| "handle cast docs (Put rid uid b now) = put_product cast docs rid uid b now"
| "handle cast docs (Delete rid uid) = delete_product cast docs rid uid"

fun run :: "(string \<Rightarrow> objectId option) \<Rightarrow> collection \<Rightarrow> request list \<Rightarrow> collection" where
  "run cast docs [] = docs"
| "run cast docs (r # rs) = run cast (snd (handle cast docs r)) rs"

text \<open>The ObjectIds the driver generates during a sequence of requests.\<close>

fun generated :: "request list \<Rightarrow> objectId list" where
  "generated [] = []"
| "generated (Post uid b nid now # rs) = nid # generated rs"
| "generated (r # rs) = generated rs"

text \<open>The clock readings (\<open>Date.now()\<close>) taken during a sequence of requests, in order.\<close>

fun readings :: "request list \<Rightarrow> timestamp list" where
  "readings [] = []"
| "readings (Post uid b nid now # rs) = now # readings rs"
| "readings (Put rid uid b now # rs) = now # readings rs"
| "readings (r # rs) = readings rs"

text \<open>An id the get-by-id, update and delete handlers cannot resolve to a stored product.\<close>

definition absent_or_malformed ::
  "(string \<Rightarrow> objectId option) \<Rightarrow> collection \<Rightarrow> string \<Rightarrow> bool" where
  "absent_or_malformed cast docs rid =
     (case cast rid of None \<Rightarrow> True | Some k \<Rightarrow> k \<notin> set (map p_id docs))"

subsection \<open>An ObjectId cast and a small collection, for concrete instances\<close>

text \<open>
  The usual text form of an ObjectId: exactly 24 lower-case hexadecimal digits. It is one
  instance of the parameter \<open>cast\<close>, used where a theorem is applied to concrete requests.
\<close>

definition hex24 :: "string \<Rightarrow> objectId option" where
  "hex24 s =
     (if length s = 24 \<and> list_all (\<lambda>c. c \<in> set ''0123456789abcdef'') s then Some s else None)"

definition alice_laptop :: product where
  "alice_laptop =
     \<lparr>p_id = ''64b000000000000000000001'', name = ''Laptop'', description = ''14 inch'',
      price = 500, imageUrl = ''laptop.png'', category = ''Electronics'', inStock = True,
      createdBy = ''alice'', createdAt = 1000, updatedAt = 1000\<rparr>"

definition bob_chair :: product where
  "bob_chair =
     \<lparr>p_id = ''64b000000000000000000002'', name = ''Chair'', description = ''Oak'',
      price = 80, imageUrl = ''chair.png'', category = ''Furniture'', inStock = False,
      createdBy = ''bob'', createdAt = 2000, updatedAt = 2500\<rparr>"

definition alice_phone :: product where
  "alice_phone =
     \<lparr>p_id = ''64b000000000000000000003'', name = ''Phone'', description = ''Dual SIM'',
      price = 300, imageUrl = ''phone.png'', category = ''Electronics'', inStock = True,
      createdBy = ''alice'', createdAt = 3000, updatedAt = 3000\<rparr>"

definition new_price :: req_body where
  "new_price =
     \<lparr>b_name = ''Laptop'', b_description = ''14 inch'', b_price = 450,
      b_imageUrl = ''laptop.png'', b_category = ''Electronics'', b_inStock = True\<rparr>"

text \<open>
  A sequence of requests: a refused update by a stranger, an update by the owner, a
  create by someone else, a delete of another product by its owner, and two reads.
\<close>

definition some_requests :: "request list" where
  "some_requests =
     [Put ''64b000000000000000000001'' ''bob'' new_price 2900,
      Put ''64b000000000000000000001'' ''alice'' new_price 3000,
      GetAll,
      Post ''bob'' new_price ''64b000000000000000000003'' 7000,
      Delete ''64b000000000000000000002'' ''bob'',
      GetOne ''64b000000000000000000002'']"

section \<open>Frontend: the mock product service and the product page\<close>

text \<open>
  The types of \<open>@/types\<close>. Timestamps are ISO strings on this side; numbers are reals
  (\<open>NaN\<close> is left out).
\<close>

record client_product =
  c_id :: string
  c_name :: string
  c_description :: string
  c_category :: string
  c_price :: real
  c_rating :: real
  c_createdAt :: string
  c_updatedAt :: string

record ProductFormData =
  f_name :: string
  f_description :: string
  f_category :: string
  f_price :: real
  f_rating :: real

record FilterOptions =
  fo_category :: "string option"
  minPrice :: "real option"
  maxPrice :: "real option"
  minRating :: "real option"
  search :: string

datatype 'a promise = Resolved 'a | Rejected string

subsection \<open>The service (frontend/src/services/product-service.ts)\<close>

text \<open>
  Every function of the service works on the module-level array \<open>mockProducts\<close>, passed
  in and returned. \<open>Array.prototype.findIndex\<close> yields \<open>-1\<close> when nothing matches, and
  \<open>splice(index, 1)\<close> removes the element at \<open>index\<close>.
\<close>

fun findIndex :: "('a \<Rightarrow> bool) \<Rightarrow> 'a list \<Rightarrow> int" where
  "findIndex P [] = - 1"
| "findIndex P (x # xs) =
     (if P x then 0 else (let i = findIndex P xs in if i = - 1 then - 1 else i + 1))"

definition splice1 :: "int \<Rightarrow> 'a list \<Rightarrow> 'a list" where
  "splice1 index xs = take (nat index) xs @ drop (nat index + 1) xs"

definition getProductById :: "string \<Rightarrow> client_product list \<Rightarrow> client_product option" where
  "getProductById ident mockProducts = find (\<lambda>p. c_id p = ident) mockProducts"

text \<open>The decimal text of a natural number, as a template literal renders it.\<close>

fun decimal :: "nat \<Rightarrow> string" where
  "decimal n =
     (if n < 10 then [''0123456789'' ! n] else decimal (n div 10) @ [''0123456789'' ! (n mod 10)])"

text \<open>
  \<open>createProduct\<close>: \<open>n\<close> is \<open>Math.floor(Math.random() * 10000)\<close>, \<open>t1\<close> and \<open>t2\<close> are the two
  readings \<open>new Date().toISOString()\<close>. The promise always resolves.
\<close>

definition createProduct ::
  "ProductFormData \<Rightarrow> nat \<Rightarrow> string \<Rightarrow> string \<Rightarrow> client_product list
     \<Rightarrow> client_product promise \<times> client_product list" where
  "createProduct productData n t1 t2 mockProducts =
     (let newProduct =
        \<lparr>c_id = decimal n, c_name = f_name productData,
         c_description = f_description productData, c_category = f_category productData,
         c_price = f_price productData, c_rating = f_rating productData,
         c_createdAt = t1, c_updatedAt = t2\<rparr>
      in (Resolved newProduct, mockProducts @ [newProduct]))"

definition updateProduct ::
  "string \<Rightarrow> ProductFormData \<Rightarrow> string \<Rightarrow> client_product list
     \<Rightarrow> client_product promise \<times> client_product list" where
  "updateProduct ident productData now mockProducts =
     (let index = findIndex (\<lambda>p. c_id p = ident) mockProducts in
      if index \<noteq> - 1 then
        (let updatedProduct =
           (mockProducts ! nat index)
             \<lparr>c_name := f_name productData, c_description := f_description productData,
              c_category := f_category productData, c_price := f_price productData,
              c_rating := f_rating productData, c_updatedAt := now\<rparr>
         in (Resolved updatedProduct, mockProducts[nat index := updatedProduct]))
      else (Rejected ''Product not found'', mockProducts))"

definition deleteProduct ::
  "string \<Rightarrow> client_product list \<Rightarrow> bool promise \<times> client_product list" where
  "deleteProduct ident mockProducts =
     (let index = findIndex (\<lambda>p. c_id p = ident) mockProducts in
      if index \<noteq> - 1 then (Resolved True, splice1 index mockProducts)
      else (Rejected ''Product not found'', mockProducts))"

subsection \<open>The filter effect of the product page\<close>

text \<open>
  \<open>a || b\<close> on a number: \<open>b\<close> when \<open>a\<close> is \<open>null\<close> or \<open>0\<close>. The default of the upper price
  bound is \<open>Infinity\<close>, so the right-hand sides of the comparisons are extended numbers.
\<close>

datatype number = Num real | Infinity

fun or_else :: "real option \<Rightarrow> number \<Rightarrow> number" where
  "or_else None d = d"
| "or_else (Some x) d = (if x = 0 then d else Num x)"

fun ge_number :: "real \<Rightarrow> number \<Rightarrow> bool" where
  "ge_number x (Num y) = (y \<le> x)"
| "ge_number x Infinity = False"

fun le_number :: "real \<Rightarrow> number \<Rightarrow> bool" where
  "le_number x (Num y) = (x \<le> y)"
| "le_number x Infinity = True"

text \<open>\<open>toLowerCase\<close> on ASCII text and \<open>String.prototype.includes\<close>.\<close>

definition toLowerChar :: "char \<Rightarrow> char" where
  "toLowerChar c =
     (case map_of (zip ''ABCDEFGHIJKLMNOPQRSTUVWXYZ'' ''abcdefghijklmnopqrstuvwxyz'') c of
        Some l \<Rightarrow> l
      | None \<Rightarrow> c)"

definition toLowerCase :: "string \<Rightarrow> string" where
  "toLowerCase s = map toLowerChar s"

definition str_includes :: "string \<Rightarrow> string \<Rightarrow> bool" where
  "str_includes s searchTerm = sublist searchTerm s"

text \<open>A string or \<open>null\<close> in a condition: true when it is a non-empty string.\<close>

fun truthy :: "string option \<Rightarrow> bool" where
  "truthy None = False"
| "truthy (Some s) = (s \<noteq> [])"

text \<open>
  The body of the effect that recomputes \<open>filteredProducts\<close> from \<open>products\<close> and \<open>filters\<close>:
  one reassignment of \<open>result\<close> after the other.
\<close>

definition by_category :: "FilterOptions \<Rightarrow> client_product list \<Rightarrow> client_product list" where
  "by_category filters result =
     (if truthy (fo_category filters)
      then filter (\<lambda>product. Some (c_category product) = fo_category filters) result
      else result)"

definition by_minPrice :: "FilterOptions \<Rightarrow> client_product list \<Rightarrow> client_product list" where
  "by_minPrice filters result =
     (if minPrice filters \<noteq> None
      then filter (\<lambda>product. ge_number (c_price product) (or_else (minPrice filters) (Num 0))) result
      else result)"

definition by_maxPrice :: "FilterOptions \<Rightarrow> client_product list \<Rightarrow> client_product list" where
  "by_maxPrice filters result =
     (if maxPrice filters \<noteq> None
      then filter (\<lambda>product. le_number (c_price product) (or_else (maxPrice filters) Infinity)) result
      else result)"

definition by_minRating :: "FilterOptions \<Rightarrow> client_product list \<Rightarrow> client_product list" where
  "by_minRating filters result =
     (if minRating filters \<noteq> None
      then filter (\<lambda>product. ge_number (c_rating product) (or_else (minRating filters) (Num 0))) result
      else result)"

definition by_search :: "FilterOptions \<Rightarrow> client_product list \<Rightarrow> client_product list" where
  "by_search filters result =
     (if search filters \<noteq> []
      then (let searchTerm = toLowerCase (search filters) in
            filter (\<lambda>product. str_includes (toLowerCase (c_name product)) searchTerm \<or>
                               str_includes (toLowerCase (c_description product)) searchTerm) result)
      else result)"

definition filteredProducts :: "FilterOptions \<Rightarrow> client_product list \<Rightarrow> client_product list" where
  "filteredProducts filters products =
     by_search filters (by_minRating filters (by_maxPrice filters (by_minPrice filters
       (by_category filters products))))"

text \<open>
  The filter criteria in the spec's words, for comparison with the effect: category equal
  when set, price within the inclusive bounds when set, rating at least \<open>minRating\<close> when
  set, and when the search term is non-empty a case-insensitive substring match against
  name or description; a \<open>null\<close> bound imposes no constraint.
\<close>

definition spec_matches :: "FilterOptions \<Rightarrow> client_product \<Rightarrow> bool" where
  "spec_matches filters product \<longleftrightarrow>
     (case fo_category filters of None \<Rightarrow> True | Some c \<Rightarrow> c_category product = c) \<and>
     (case minPrice filters of None \<Rightarrow> True | Some lo \<Rightarrow> lo \<le> c_price product) \<and>
     (case maxPrice filters of None \<Rightarrow> True | Some hi \<Rightarrow> c_price product \<le> hi) \<and>
     (case minRating filters of None \<Rightarrow> True | Some r \<Rightarrow> r \<le> c_rating product) \<and>
     (search filters = [] \<or>
      str_includes (toLowerCase (c_name product)) (toLowerCase (search filters)) \<or>
      str_includes (toLowerCase (c_description product)) (toLowerCase (search filters)))"

subsection \<open>The state of the product page and its submit and delete handlers\<close>

text \<open>
  \<open>getProducts\<close> resolves the array \<open>mockProducts\<close> itself, so after the first load the
  React state \<open>products\<close> refers to the very array the service mutates in place; every
  later \<open>setProducts\<close> stores a fresh array. The state is therefore a reference: \<open>Shared\<close>
  is the service's array, \<open>Own xs\<close> an array of the page's own.
\<close>

datatype products_ref = Shared | Own "client_product list"

datatype toast = Success string | Error string

record page =
  mockProducts :: "client_product list"
  products :: products_ref
  currentProduct :: "client_product option"
  productToDelete :: "string option"
  isFormOpen :: bool
  isDeleteDialogOpen :: bool
  isSubmitting :: bool
  toasts :: "toast list"

text \<open>The product list the page holds: the contents of the array its state refers to.\<close>

definition product_state :: "page \<Rightarrow> client_product list" where
  "product_state w = (case products w of Shared \<Rightarrow> mockProducts w | Own xs \<Rightarrow> xs)"

text \<open>\<open>loadData\<close>: \<open>setProducts(productsData)\<close> with the array \<open>getProducts()\<close> resolved.\<close>

definition loadData :: "page \<Rightarrow> page" where
  "loadData w = w\<lparr>products := Shared\<rparr>"

text \<open>
  \<open>handleProductSubmit\<close>. The service call runs first and may mutate \<open>mockProducts\<close>; on
  success the updater of \<open>setProducts\<close> reads the array the state refers to at that moment.
  On rejection the \<open>catch\<close> block only raises a toast. \<open>finally\<close> resets \<open>isSubmitting\<close>.
\<close>

definition handleProductSubmit ::
  "ProductFormData \<Rightarrow> nat \<Rightarrow> string \<Rightarrow> string \<Rightarrow> page \<Rightarrow> page" where
  "handleProductSubmit data n t1 t2 w =
     (case currentProduct w of
        Some cp \<Rightarrow>
          (case updateProduct (c_id cp) data t1 (mockProducts w) of
             (Resolved updatedProduct, store) \<Rightarrow>
               (let w1 = w\<lparr>mockProducts := store\<rparr> in
                w1\<lparr>products :=
                     Own (map (\<lambda>p. if c_id p = c_id cp then updatedProduct else p)
                            (product_state w1)),
                   toasts := toasts w @ [Success ''Product updated successfully''],
                   isFormOpen := False, isSubmitting := False\<rparr>)
           | (Rejected e, store) \<Rightarrow>
               w\<lparr>mockProducts := store,
                 toasts := toasts w @ [Error ''Failed to update product''],
                 isSubmitting := False\<rparr>)
      | None \<Rightarrow>
          (case createProduct data n t1 t2 (mockProducts w) of
             (Resolved updatedProduct, store) \<Rightarrow>
               (let w1 = w\<lparr>mockProducts := store\<rparr> in
                w1\<lparr>products := Own (product_state w1 @ [updatedProduct]),
                   toasts := toasts w @ [Success ''Product created successfully''],
                   isFormOpen := False, isSubmitting := False\<rparr>)
           | (Rejected e, store) \<Rightarrow>
               w\<lparr>mockProducts := store,
                 toasts := toasts w @ [Error ''Failed to create product''],
                 isSubmitting := False\<rparr>))"

text \<open>
  \<open>confirmDelete\<close>: nothing happens when \<open>productToDelete\<close> is \<open>null\<close> or empty; otherwise
  the state is filtered after the service call succeeded, and \<open>finally\<close> closes the dialog.
\<close>

definition confirmDelete :: "page \<Rightarrow> page" where
  "confirmDelete w =
     (case productToDelete w of
        None \<Rightarrow> w
      | Some ident \<Rightarrow>
          if ident = [] then w
          else
            (case deleteProduct ident (mockProducts w) of
               (Resolved ok, store) \<Rightarrow>
                 (let w1 = w\<lparr>mockProducts := store\<rparr> in
                  w1\<lparr>products := Own (filter (\<lambda>p. c_id p \<noteq> ident) (product_state w1)),
                     toasts := toasts w @ [Success ''Product deleted successfully''],
                     isDeleteDialogOpen := False, productToDelete := None\<rparr>)
             | (Rejected e, store) \<Rightarrow>
                 w\<lparr>mockProducts := store,
                   toasts := toasts w @ [Error ''Failed to delete product''],
                   isDeleteDialogOpen := False, productToDelete := None\<rparr>))"

section \<open>Frontend: the authentication context (frontend/src/contexts/auth-context.tsx)\<close>

record User =
  u_id :: string
  email :: string

text \<open>
  \<open>localStorage\<close> maps keys to strings. The text \<open>JSON.stringify(mockUser)\<close> is kept as
  the user it encodes.
\<close>

datatype stored = Text string | UserJson User

type_synonym storage = "string \<rightharpoonup> stored"

record auth =
  user :: "User option"
  token :: "string option"
  localStorage :: storage
  notices :: "toast list"

text \<open>
  \<open>localStorage.setItem\<close> stores the item or throws (a full quota, a browser that denies
  storage). Whether the browser takes a write is the parameter \<open>accepts\<close>; \<open>None\<close> is the
  exception.
\<close>

definition setItem ::
  "(storage \<Rightarrow> string \<Rightarrow> stored \<Rightarrow> bool) \<Rightarrow> storage \<Rightarrow> string \<Rightarrow> stored \<Rightarrow> storage option" where
  "setItem accepts ls k v = (if accepts ls k v then Some (ls(k \<mapsto> v)) else None)"

text \<open>
  \<open>login\<close> and \<open>signup\<close>: \<open>r\<close> is \<open>Math.random().toString(36).substring(2)\<close>. The two
  storage writes are the statements of the \<open>try\<close> block that can throw; the \<open>catch\<close> block
  raises an error toast and returns \<open>false\<close>, leaving \<open>user\<close> and \<open>token\<close> as they were (a
  first write that succeeded stays in \<open>localStorage\<close>).
\<close>

definition login ::
  "(storage \<Rightarrow> string \<Rightarrow> stored \<Rightarrow> bool) \<Rightarrow> string \<Rightarrow> string \<Rightarrow> string \<Rightarrow> auth \<Rightarrow> bool \<times> auth" where
  "login accepts email_in password r a =
     (let mockUser = \<lparr>u_id = ''1'', email = email_in\<rparr>;
          mockToken = ''mock_jwt_token_'' @ r
      in case setItem accepts (localStorage a) ''jwt_token'' (Text mockToken) of
           None \<Rightarrow>
             (False,
              a\<lparr>notices := notices a @ [Error ''Login failed. Please check your credentials.'']\<rparr>)
         | Some ls1 \<Rightarrow>
             (case setItem accepts ls1 ''user'' (UserJson mockUser) of
                None \<Rightarrow>
                  (False,
                   a\<lparr>localStorage := ls1,
                     notices := notices a @
                       [Error ''Login failed. Please check your credentials.'']\<rparr>)
              | Some ls2 \<Rightarrow>
                  (True,
                   a\<lparr>localStorage := ls2, user := Some mockUser, token := Some mockToken,
                     notices := notices a @ [Success ''Login successful!'']\<rparr>)))"

definition signup ::
  "(storage \<Rightarrow> string \<Rightarrow> stored \<Rightarrow> bool) \<Rightarrow> string \<Rightarrow> string \<Rightarrow> string \<Rightarrow> auth \<Rightarrow> bool \<times> auth" where
  "signup accepts email_in password r a =
     (let mockUser = \<lparr>u_id = ''1'', email = email_in\<rparr>;
          mockToken = ''mock_jwt_token_'' @ r
      in case setItem accepts (localStorage a) ''jwt_token'' (Text mockToken) of
           None \<Rightarrow>
             (False, a\<lparr>notices := notices a @ [Error ''Signup failed. Please try again.'']\<rparr>)
         | Some ls1 \<Rightarrow>
             (case setItem accepts ls1 ''user'' (UserJson mockUser) of
                None \<Rightarrow>
                  (False,
                   a\<lparr>localStorage := ls1,
                     notices := notices a @ [Error ''Signup failed. Please try again.'']\<rparr>)
              | Some ls2 \<Rightarrow>
                  (True,
                   a\<lparr>localStorage := ls2, user := Some mockUser, token := Some mockToken,
                     notices := notices a @ [Success ''Account created successfully!'']\<rparr>)))"

text \<open>Both storage writes of a login or signup with this email and random suffix are taken.\<close>

definition writes_taken ::
  "(storage \<Rightarrow> string \<Rightarrow> stored \<Rightarrow> bool) \<Rightarrow> string \<Rightarrow> string \<Rightarrow> auth \<Rightarrow> bool" where
  "writes_taken accepts email_in r a \<longleftrightarrow>
     accepts (localStorage a) ''jwt_token'' (Text (''mock_jwt_token_'' @ r)) \<and>
     accepts ((localStorage a)(''jwt_token'' \<mapsto> Text (''mock_jwt_token_'' @ r))) ''user''
       (UserJson \<lparr>u_id = ''1'', email = email_in\<rparr>)"

subsection \<open>A browser and a signed-out state, for concrete instances\<close>

text \<open>
  The length of a stored item; for a user, that of the JSON text
  \<open>{"id":"...","email":"..."}\<close> when no character needs an escape.
\<close>

fun stored_length :: "stored \<Rightarrow> nat" where
  "stored_length (Text s) = length s"
| "stored_length (UserJson u) = 20 + length (u_id u) + length (email u)"

text \<open>
  One instance of \<open>accepts\<close>: a browser whose quota leaves room for an item of at most
  \<open>n\<close> characters, key included.
\<close>

definition room_for :: "nat \<Rightarrow> storage \<Rightarrow> string \<Rightarrow> stored \<Rightarrow> bool" where
  "room_for n ls k v \<longleftrightarrow> length k + stored_length v \<le> n"

definition signed_out :: auth where
  "signed_out = \<lparr>user = None, token = None, localStorage = Map.empty, notices = []\<rparr>"

definition long_email :: string where
  "long_email = ''a.very.long.address.for.the.demo.account.of.the.catalog@example.org''"

subsection \<open>Client products for concrete instances\<close>

definition cheap :: client_product where
  "cheap = \<lparr>c_id = ''1'', c_name = ''Desk Lamp'', c_description = ''Warm light'',
            c_category = ''Home'', c_price = 100, c_rating = 4,
            c_createdAt = ''2023-01-15T08:00:00Z'', c_updatedAt = ''2023-01-15T08:00:00Z''\<rparr>"

definition middle :: client_product where
  "middle = \<lparr>c_id = ''2'', c_name = ''Office Chair'', c_description = ''Lumbar support'',
             c_category = ''Furniture'', c_price = 500, c_rating = 4.5,
             c_createdAt = ''2023-02-10T10:30:00Z'', c_updatedAt = ''2023-02-10T10:30:00Z''\<rparr>"

definition dear :: client_product where
  "dear = \<lparr>c_id = ''3'', c_name = ''Smart TV'', c_description = ''QLED display'',
           c_category = ''Electronics'', c_price = 1500, c_rating = 4.3,
           c_createdAt = ''2023-03-05T14:15:00Z'', c_updatedAt = ''2023-03-05T14:15:00Z''\<rparr>"

text \<open>A page whose form and delete dialog point at a product the service no longer has.\<close>

definition stale_page :: page where
  "stale_page =
     \<lparr>mockProducts = [cheap, middle], products = Shared, currentProduct = Some dear,
      productToDelete = Some ''3'', isFormOpen = True, isDeleteDialogOpen = True,
      isSubmitting = False, toasts = []\<rparr>"

definition no_filter :: FilterOptions where
  "no_filter = \<lparr>fo_category = None, minPrice = None, maxPrice = None, minRating = None,
                search = []\<rparr>"

definition form_data :: ProductFormData where
  "form_data = \<lparr>f_name = ''Desk Lamp'', f_description = ''Cold light'', f_category = ''Home'',
                 f_price = 120, f_rating = 3\<rparr>"

section \<open>Properties of the product routes\<close>

lemma find_id_None: "k \<notin> set (map p_id docs) \<Longrightarrow> find (\<lambda>p. p_id p = k) docs = None"
  by (induction docs) auto

lemma find_id_Some:
  "find (\<lambda>p. p_id p = k) docs = Some p \<Longrightarrow> p_id p = k \<and> p \<in> set docs"
  by (induction docs) (auto split: if_splits)

lemma findById_Some:
  "findById cast docs rid = Inr (Some p) \<Longrightarrow>
     cast rid = Some (p_id p) \<and> find (\<lambda>q. p_id q = p_id p) docs = Some p"
  unfolding findById_def
  by (cases "cast rid") (auto dest: find_id_Some)

lemma put_found:
  assumes k: "cast rid = Some k" and f: "find (\<lambda>p. p_id p = k) docs = Some p"
  shows "put_product cast docs rid uid b now =
     (if createdBy p \<noteq> uid
      then (\<lparr>status = 403, body = MessageJson ''Not authorized to update this product''\<rparr>, docs)
      else (\<lparr>status = 200,
             body = MessageProductJson ''Product updated successfully''
                      (Some (apply_update b now p))\<rparr>,
            update_first (\<lambda>q. p_id q = k) (apply_update b now) docs))"
  unfolding put_product_def findById_def findByIdAndUpdate_def
  by (simp add: k f)

lemma delete_found:
  assumes k: "cast rid = Some k" and f: "find (\<lambda>p. p_id p = k) docs = Some p"
  shows "delete_product cast docs rid uid =
     (if createdBy p \<noteq> uid
      then (\<lparr>status = 403, body = MessageJson ''Not authorized to delete this product''\<rparr>, docs)
      else (\<lparr>status = 200, body = MessageJson ''Product deleted successfully''\<rparr>,
            deleteOne p docs))"
  unfolding delete_product_def findById_def
  by (simp add: k f)

lemma alice_laptop_found:
  "findById hex24 [alice_laptop, bob_chair] ''64b000000000000000000001'' = Inr (Some alice_laptop)"
  by (simp add: findById_def hex24_def alice_laptop_def bob_chair_def)

text \<open>
  C1. Let the request id resolve to a stored product \<open>p\<close>. A caller other than
  \<open>createdBy p\<close> gets 403 from update and from delete, and the collection (so \<open>p\<close> too) is
  returned as it was. The owner reaches the mutation: update answers 200 with the updated
  document written over \<open>p\<close>, delete answers 200 with \<open>p\<close> removed.
\<close>

theorem only_owner_mutates:
  assumes "findById cast docs rid = Inr (Some p)"
  shows "(createdBy p \<noteq> uid \<longrightarrow>
            put_product cast docs rid uid b now =
              (\<lparr>status = 403, body = MessageJson ''Not authorized to update this product''\<rparr>,
               docs) \<and>
            delete_product cast docs rid uid =
              (\<lparr>status = 403, body = MessageJson ''Not authorized to delete this product''\<rparr>,
               docs)) \<and>
         (createdBy p = uid \<longrightarrow>
            put_product cast docs rid uid b now =
              (\<lparr>status = 200,
                body = MessageProductJson ''Product updated successfully''
                         (Some (apply_update b now p))\<rparr>,
               update_first (\<lambda>q. p_id q = p_id p) (apply_update b now) docs) \<and>
            delete_product cast docs rid uid =
              (\<lparr>status = 200, body = MessageJson ''Product deleted successfully''\<rparr>,
               deleteOne p docs))"
proof -
  from findById_Some [OF assms]
  have k: "cast rid = Some (p_id p)" and f: "find (\<lambda>q. p_id q = p_id p) docs = Some p"
    by simp_all
  show ?thesis
    by (simp add: put_found [where cast = cast and rid = rid, OF k f]
        delete_found [where cast = cast and rid = rid, OF k f])
qed

theorem only_owner_mutates_witness:
  "findById hex24 [alice_laptop, bob_chair] ''64b000000000000000000001'' = Inr (Some alice_laptop) \<and>
   createdBy alice_laptop \<noteq> ''bob'' \<and>
   put_product hex24 [alice_laptop, bob_chair] ''64b000000000000000000001'' ''bob'' new_price 3000 =
     (\<lparr>status = 403, body = MessageJson ''Not authorized to update this product''\<rparr>,
      [alice_laptop, bob_chair]) \<and>
   delete_product hex24 [alice_laptop, bob_chair] ''64b000000000000000000001'' ''bob'' =
     (\<lparr>status = 403, body = MessageJson ''Not authorized to delete this product''\<rparr>,
      [alice_laptop, bob_chair]) \<and>
   createdBy alice_laptop = ''alice'' \<and>
   put_product hex24 [alice_laptop, bob_chair] ''64b000000000000000000001'' ''alice'' new_price 3000 =
     (\<lparr>status = 200,
       body = MessageProductJson ''Product updated successfully''
                (Some (alice_laptop\<lparr>price := 450, updatedAt := 3000\<rparr>))\<rparr>,
      [alice_laptop\<lparr>price := 450, updatedAt := 3000\<rparr>, bob_chair]) \<and>
   delete_product hex24 [alice_laptop, bob_chair] ''64b000000000000000000001'' ''alice'' =
     (\<lparr>status = 200, body = MessageJson ''Product deleted successfully''\<rparr>, [bob_chair])"
proof -
  have other: "createdBy alice_laptop \<noteq> ''bob''" and own: "createdBy alice_laptop = ''alice''"
    by (simp_all add: alice_laptop_def)
  have upd: "apply_update new_price 3000 alice_laptop = alice_laptop\<lparr>price := 450, updatedAt := 3000\<rparr>"
    by (simp add: apply_update_def new_price_def alice_laptop_def)
  have ids: "p_id bob_chair \<noteq> p_id alice_laptop"
    by (simp add: alice_laptop_def bob_chair_def)
  show ?thesis
    using only_owner_mutates [OF alice_laptop_found, of "''bob''" new_price 3000]
      only_owner_mutates [OF alice_laptop_found, of "''alice''" new_price 3000]
      alice_laptop_found other own
    by (simp add: upd deleteOne_def)
qed

text \<open>
  C2. For an id that is malformed (the cast fails) or well-formed but absent from the
  collection, get-by-id, update and delete all answer with the 404 response; the
  collection is unchanged. The response is not the 500 one.
\<close>

theorem missing_id_is_404:
  assumes "absent_or_malformed cast docs rid"
  shows "get_product cast docs rid = not_found \<and>
         put_product cast docs rid uid b now = (not_found, docs) \<and>
         delete_product cast docs rid uid = (not_found, docs) \<and>
         status not_found = 404 \<and> not_found \<noteq> server_error"
proof (cases "cast rid")
  case None
  then show ?thesis
    by (simp add: get_product_def put_product_def delete_product_def
        findById_def catch_by_id_def not_found_def server_error_def)
next
  case (Some k)
  with assms have "find (\<lambda>p. p_id p = k) docs = None"
    by (simp add: absent_or_malformed_def find_id_None)
  with Some show ?thesis
    by (simp add: get_product_def put_product_def delete_product_def
        findById_def not_found_def server_error_def)
qed

theorem missing_id_is_404_witness:
  "absent_or_malformed hex24 [alice_laptop, bob_chair] ''not-an-id'' \<and>
   get_product hex24 [alice_laptop, bob_chair] ''not-an-id'' = not_found \<and>
   put_product hex24 [alice_laptop, bob_chair] ''not-an-id'' ''alice'' new_price 3000 =
     (not_found, [alice_laptop, bob_chair]) \<and>
   delete_product hex24 [alice_laptop, bob_chair] ''not-an-id'' ''alice'' =
     (not_found, [alice_laptop, bob_chair]) \<and>
   absent_or_malformed hex24 [alice_laptop, bob_chair] ''64b000000000000000000009'' \<and>
   get_product hex24 [alice_laptop, bob_chair] ''64b000000000000000000009'' = not_found \<and>
   put_product hex24 [alice_laptop, bob_chair] ''64b000000000000000000009'' ''alice'' new_price 3000 =
     (not_found, [alice_laptop, bob_chair]) \<and>
   delete_product hex24 [alice_laptop, bob_chair] ''64b000000000000000000009'' ''alice'' =
     (not_found, [alice_laptop, bob_chair])"
proof -
  have bad: "absent_or_malformed hex24 [alice_laptop, bob_chair] ''not-an-id''"
    by (simp add: absent_or_malformed_def hex24_def)
  have gone: "absent_or_malformed hex24 [alice_laptop, bob_chair] ''64b000000000000000000009''"
    by (simp add: absent_or_malformed_def hex24_def alice_laptop_def bob_chair_def)
  show ?thesis
    using missing_id_is_404 [OF bad, of "''alice''" new_price 3000]
      missing_id_is_404 [OF gone, of "''alice''" new_price 3000] bad gone
    by simp
qed

lemma sort_createdAt_desc_sorted:
  "sorted_wrt (\<lambda>a b. createdAt b \<le> createdAt a) (sort_createdAt_desc docs)"
proof -
  have "sorted (map (\<lambda>p. - createdAt p) (sort_key (\<lambda>p. - createdAt p) docs))"
    by (rule sorted_sort_key)
  then show ?thesis
    by (simp add: sort_createdAt_desc_def sorted_map)
qed

lemma sort_createdAt_desc_mset: "mset (sort_createdAt_desc docs) = mset docs"
  by (simp add: sort_createdAt_desc_def)

lemma newest_first_nth:
  assumes s: "sorted_wrt (\<lambda>a b. createdAt b \<le> createdAt a) r"
    and i: "i < length r" and j: "j < length r"
    and lt: "createdAt (r ! i) < createdAt (r ! j)"
  shows "j < i"
proof (rule ccontr)
  assume "\<not> j < i"
  then have "i = j \<or> i < j" by arith
  then show False
  proof
    assume "i = j"
    with lt show False by simp
  next
    assume "i < j"
    from sorted_wrt_nth_less [OF s this j] have "createdAt (r ! j) \<le> createdAt (r ! i)" .
    with lt show False by simp
  qed
qed

text \<open>
  C3. List-all and list-mine answer 200 with the stored products (for list-mine: those
  created by the caller), each exactly once, ordered by \<open>createdAt\<close> descending: whenever
  the product at position \<open>i\<close> was created strictly before the one at position \<open>j\<close>, it
  comes after it (\<open>j < i\<close>).
\<close>

theorem listings_newest_first:
  "get_products docs = \<lparr>status = 200, body = ProductsJson (sort_createdAt_desc docs)\<rparr> \<and>
   mset (sort_createdAt_desc docs) = mset docs \<and>
   (i < length (sort_createdAt_desc docs) \<and> j < length (sort_createdAt_desc docs) \<and>
    createdAt (sort_createdAt_desc docs ! i) < createdAt (sort_createdAt_desc docs ! j)
      \<longrightarrow> j < i) \<and>
   get_user_me docs uid =
     \<lparr>status = 200,
      body = ProductsJson (sort_createdAt_desc (filter (\<lambda>p. createdBy p = uid) docs))\<rparr> \<and>
   mset (sort_createdAt_desc (filter (\<lambda>p. createdBy p = uid) docs)) =
     filter_mset (\<lambda>p. createdBy p = uid) (mset docs) \<and>
   (m < length (sort_createdAt_desc (filter (\<lambda>p. createdBy p = uid) docs)) \<and>
    n < length (sort_createdAt_desc (filter (\<lambda>p. createdBy p = uid) docs)) \<and>
    createdAt (sort_createdAt_desc (filter (\<lambda>p. createdBy p = uid) docs) ! m)
      < createdAt (sort_createdAt_desc (filter (\<lambda>p. createdBy p = uid) docs) ! n)
      \<longrightarrow> n < m)"
  using newest_first_nth [OF sort_createdAt_desc_sorted, of i docs j]
    newest_first_nth [OF sort_createdAt_desc_sorted, of m "filter (\<lambda>p. createdBy p = uid) docs" n]
  by (simp add: get_products_def get_user_me_def sort_createdAt_desc_mset)

theorem listings_newest_first_witness:
  "1 < length (sort_createdAt_desc [alice_laptop, bob_chair, alice_phone]) \<and>
   0 < length (sort_createdAt_desc [alice_laptop, bob_chair, alice_phone]) \<and>
   createdAt (sort_createdAt_desc [alice_laptop, bob_chair, alice_phone] ! 1)
     < createdAt (sort_createdAt_desc [alice_laptop, bob_chair, alice_phone] ! 0) \<and>
   (0::nat) < 1 \<and>
   sort_createdAt_desc [alice_laptop, bob_chair, alice_phone] = [alice_phone, bob_chair, alice_laptop] \<and>
   1 < length (sort_createdAt_desc (filter (\<lambda>p. createdBy p = ''alice'') [alice_laptop, bob_chair, alice_phone])) \<and>
   createdAt (sort_createdAt_desc (filter (\<lambda>p. createdBy p = ''alice'') [alice_laptop, bob_chair, alice_phone]) ! 1)
     < createdAt (sort_createdAt_desc (filter (\<lambda>p. createdBy p = ''alice'') [alice_laptop, bob_chair, alice_phone]) ! 0) \<and>
   get_user_me [alice_laptop, bob_chair, alice_phone] ''alice'' =
     \<lparr>status = 200, body = ProductsJson [alice_phone, alice_laptop]\<rparr>"
proof -
  have all: "sort_createdAt_desc [alice_laptop, bob_chair, alice_phone] = [alice_phone, bob_chair, alice_laptop]"
    by (simp add: sort_createdAt_desc_def alice_laptop_def bob_chair_def alice_phone_def)
  have mine: "filter (\<lambda>p. createdBy p = ''alice'') [alice_laptop, bob_chair, alice_phone] = [alice_laptop, alice_phone]"
    by (simp add: alice_laptop_def bob_chair_def alice_phone_def)
  have mine_sorted: "sort_createdAt_desc [alice_laptop, alice_phone] = [alice_phone, alice_laptop]"
    by (simp add: sort_createdAt_desc_def alice_laptop_def alice_phone_def)
  have ts: "createdAt alice_laptop = 1000" "createdAt bob_chair = 2000" "createdAt alice_phone = 3000"
    by (simp_all add: alice_laptop_def bob_chair_def alice_phone_def)
  show ?thesis
    unfolding mine mine_sorted all
    using listings_newest_first [of "[alice_laptop, bob_chair, alice_phone]" 1 0 "''alice''" 1 0,
        unfolded mine mine_sorted all]
    by (simp add: ts)
qed

lemma save_ok:
  "valid_product p \<Longrightarrow> p_id p \<notin> set (map p_id docs) \<Longrightarrow> save p docs = (Inr p, docs @ [p])"
  by (simp add: save_def)

lemma find_id_append_new:
  "k \<notin> set (map p_id docs) \<Longrightarrow> p_id p = k \<Longrightarrow> find (\<lambda>q. p_id q = k) (docs @ [p]) = Some p"
  by (induction docs) auto

text \<open>
  C5. For a create input that meets the data model, a fresh generated id whose text form
  casts back to itself, and any caller \<open>uid\<close>: the create handler answers 201 with the new
  product and stores it; fetching by the returned id right away answers 200 with that
  same product. Its six fields equal the input, \<open>createdBy\<close> is the caller, the id is the
  generated one, and \<open>createdAt\<close> equals \<open>updatedAt\<close>.
\<close>

theorem create_then_fetch:
  assumes v: "valid_body b"
    and fresh: "nid \<notin> set (map p_id docs)"
    and canon: "cast nid = Some nid"
  shows "post_product docs uid b nid now =
           (\<lparr>status = 201,
             body = MessageProductJson ''Product created successfully''
                      (Some (new_Product b uid nid now))\<rparr>,
            docs @ [new_Product b uid nid now]) \<and>
         get_product cast (snd (post_product docs uid b nid now)) (p_id (new_Product b uid nid now)) =
           \<lparr>status = 200, body = ProductJson (new_Product b uid nid now)\<rparr> \<and>
         name (new_Product b uid nid now) = b_name b \<and>
         description (new_Product b uid nid now) = b_description b \<and>
         price (new_Product b uid nid now) = b_price b \<and>
         category (new_Product b uid nid now) = b_category b \<and>
         imageUrl (new_Product b uid nid now) = b_imageUrl b \<and>
         inStock (new_Product b uid nid now) = b_inStock b \<and>
         createdBy (new_Product b uid nid now) = uid \<and>
         p_id (new_Product b uid nid now) = nid \<and>
         createdAt (new_Product b uid nid now) = updatedAt (new_Product b uid nid now)"
proof -
  let ?p = "new_Product b uid nid now"
  have id: "p_id ?p = nid" by (simp add: new_Product_def)
  from v have "valid_product ?p"
    by (simp add: valid_body_def valid_product_def new_Product_def)
  with fresh id have s: "save ?p docs = (Inr ?p, docs @ [?p])"
    by (simp add: save_ok)
  then have post: "post_product docs uid b nid now =
           (\<lparr>status = 201,
             body = MessageProductJson ''Product created successfully'' (Some ?p)\<rparr>,
            docs @ [?p])"
    by (simp add: post_product_def)
  from fresh id have "find (\<lambda>q. p_id q = nid) (docs @ [?p]) = Some ?p"
    by (rule find_id_append_new)
  with canon have get: "get_product cast (docs @ [?p]) nid = \<lparr>status = 200, body = ProductJson ?p\<rparr>"
    by (simp add: get_product_def findById_def)
  have fields: "name ?p = b_name b \<and> description ?p = b_description b \<and> price ?p = b_price b \<and>
      category ?p = b_category b \<and> imageUrl ?p = b_imageUrl b \<and> inStock ?p = b_inStock b \<and>
      createdBy ?p = uid \<and> createdAt ?p = updatedAt ?p"
    by (simp add: new_Product_def)
  from post get id fields show ?thesis by simp
qed


theorem create_then_fetch_witness:
  "valid_body new_price \<and>
   ''64b000000000000000000003'' \<notin> set (map p_id [alice_laptop, bob_chair]) \<and>
   hex24 ''64b000000000000000000003'' = Some ''64b000000000000000000003'' \<and>
   post_product [alice_laptop, bob_chair] ''bob'' new_price ''64b000000000000000000003'' 7000 =
     (\<lparr>status = 201,
       body = MessageProductJson ''Product created successfully''
                (Some (new_Product new_price ''bob'' ''64b000000000000000000003'' 7000))\<rparr>,
      [alice_laptop, bob_chair, new_Product new_price ''bob'' ''64b000000000000000000003'' 7000]) \<and>
   get_product hex24
       (snd (post_product [alice_laptop, bob_chair] ''bob'' new_price ''64b000000000000000000003'' 7000))
       ''64b000000000000000000003'' =
     \<lparr>status = 200,
      body = ProductJson (new_Product new_price ''bob'' ''64b000000000000000000003'' 7000)\<rparr> \<and>
   createdAt (new_Product new_price ''bob'' ''64b000000000000000000003'' 7000) = 7000 \<and>
   updatedAt (new_Product new_price ''bob'' ''64b000000000000000000003'' 7000) = 7000"
proof -
  have v: "valid_body new_price"
    by (simp add: valid_body_def new_price_def)
  have fresh: "''64b000000000000000000003'' \<notin> set (map p_id [alice_laptop, bob_chair])"
    by (simp add: alice_laptop_def bob_chair_def)
  have canon: "hex24 ''64b000000000000000000003'' = Some ''64b000000000000000000003''"
    by (simp add: hex24_def)
  have ts: "createdAt (new_Product new_price ''bob'' ''64b000000000000000000003'' 7000) = 7000"
    by (simp add: new_Product_def)
  show ?thesis
    using create_then_fetch [OF v fresh, where cast = hex24, OF canon, of "''bob''" 7000] v fresh canon ts
    by (elim conjE) (simp add: new_Product_def)
qed

lemma apply_update_frame:
  "p_id (apply_update b now p) = p_id p \<and> createdBy (apply_update b now p) = createdBy p \<and>
   createdAt (apply_update b now p) = createdAt p \<and> updatedAt (apply_update b now p) = now"
  by (simp add: apply_update_def)

lemma find_update_first:
  "find (\<lambda>q. p_id q = k) docs = Some p \<Longrightarrow> p_id (f p) = k \<Longrightarrow>
     find (\<lambda>q. p_id q = k) (update_first (\<lambda>q. p_id q = k) f docs) = Some (f p)"
  by (induction docs) (auto split: if_splits)

lemma set_update_first:
  "q \<in> set (update_first P f docs) \<Longrightarrow> q \<in> set docs \<or> (\<exists>x \<in> set docs. q = f x)"
  by (induction docs) (auto split: if_splits)

lemma set_remove_first: "q \<in> set (remove_first P docs) \<Longrightarrow> q \<in> set docs"
  by (induction docs) (auto split: if_splits)

lemma put_product_cases:
  "snd (put_product cast docs rid uid b now) = docs \<or>
   (\<exists>k. snd (put_product cast docs rid uid b now) =
      update_first (\<lambda>q. p_id q = k) (apply_update b now) docs)"
  by (auto simp: put_product_def findById_def findByIdAndUpdate_def
      split: option.splits sum.splits)

lemma delete_product_cases:
  "snd (delete_product cast docs rid uid) = docs \<or>
   (\<exists>P. snd (delete_product cast docs rid uid) = remove_first P docs)"
  by (auto simp: delete_product_def findById_def deleteOne_def split: option.splits)

lemma post_product_cases:
  "snd (post_product docs uid b nid now) = docs \<or>
   snd (post_product docs uid b nid now) = docs @ [new_Product b uid nid now]"
  by (simp add: post_product_def save_def)

lemma handle_keeps_owner:
  assumes inv: "\<forall>q \<in> set docs. p_id q = k \<longrightarrow> createdBy q = u"
    and gen: "k \<notin> set (generated [r])"
  shows "\<forall>q \<in> set (snd (handle cast docs r)). p_id q = k \<longrightarrow> createdBy q = u"
proof (cases r)
  case GetAll
  with inv show ?thesis by simp
next
  case (GetOne rid)
  with inv show ?thesis by simp
next
  case (GetMine uid)
  with inv show ?thesis by simp
next
  case (Post uid b nid now)
  with gen have "nid \<noteq> k" by auto
  then have "p_id (new_Product b uid nid now) \<noteq> k" by (simp add: new_Product_def)
  with inv post_product_cases [of docs uid b nid now] Post show ?thesis by auto
next
  case (Put rid uid b now)
  show ?thesis
  proof (intro ballI impI)
    fix q assume q: "q \<in> set (snd (handle cast docs r))" and qk: "p_id q = k"
    from q Put have q': "q \<in> set (snd (put_product cast docs rid uid b now))" by simp
    have "q \<in> set docs \<or> (\<exists>x \<in> set docs. q = apply_update b now x)"
    proof (rule disjE [OF put_product_cases [of cast docs rid uid b now]])
      assume "snd (put_product cast docs rid uid b now) = docs"
      with q' show ?thesis by simp
    next
      assume "\<exists>k. snd (put_product cast docs rid uid b now) =
        update_first (\<lambda>q. p_id q = k) (apply_update b now) docs"
      then obtain k' where "snd (put_product cast docs rid uid b now) =
        update_first (\<lambda>q. p_id q = k') (apply_update b now) docs" by blast
      with q' have "q \<in> set (update_first (\<lambda>q. p_id q = k') (apply_update b now) docs)"
        by simp
      then show ?thesis by (rule set_update_first)
    qed
    then show "createdBy q = u"
    proof
      assume "q \<in> set docs" with inv qk show ?thesis by simp
    next
      assume "\<exists>x \<in> set docs. q = apply_update b now x"
      then obtain x where x: "x \<in> set docs" and qx: "q = apply_update b now x" by blast
      from qk qx have "p_id x = k" by (simp add: apply_update_frame)
      with inv x have "createdBy x = u" by simp
      with qx show ?thesis by (simp add: apply_update_frame)
    qed
  qed
next
  case (Delete rid uid)
  show ?thesis
  proof (intro ballI impI)
    fix q assume q: "q \<in> set (snd (handle cast docs r))" and qk: "p_id q = k"
    from q Delete have q': "q \<in> set (snd (delete_product cast docs rid uid))" by simp
    have "q \<in> set docs"
    proof (rule disjE [OF delete_product_cases [of cast docs rid uid]])
      assume "snd (delete_product cast docs rid uid) = docs"
      with q' show ?thesis by simp
    next
      assume "\<exists>P. snd (delete_product cast docs rid uid) = remove_first P docs"
      then obtain P where "snd (delete_product cast docs rid uid) = remove_first P docs"
        by blast
      with q' have "q \<in> set (remove_first P docs)" by simp
      then show ?thesis by (rule set_remove_first)
    qed
    with inv qk show "createdBy q = u" by simp
  qed
qed

lemma generated_Cons: "set (generated (r # rs)) = set (generated [r]) \<union> set (generated rs)"
  by (cases r) simp_all

lemma run_keeps_owner:
  "\<forall>q \<in> set docs. p_id q = k \<longrightarrow> createdBy q = u \<Longrightarrow> k \<notin> set (generated rs) \<Longrightarrow>
     \<forall>q \<in> set (run cast docs rs). p_id q = k \<longrightarrow> createdBy q = u"
proof (induction rs arbitrary: docs)
  case Nil
  then show ?case by simp
next
  case (Cons r rs)
  from Cons.prems(2) have "k \<notin> set (generated [r]) \<union> set (generated rs)"
    unfolding generated_Cons [of r rs] .
  then have g1: "k \<notin> set (generated [r])" and g2: "k \<notin> set (generated rs)"
    by simp_all
  from handle_keeps_owner [OF Cons.prems(1) g1]
  have "\<forall>q \<in> set (snd (handle cast docs r)). p_id q = k \<longrightarrow> createdBy q = u" .
  from Cons.IH [OF this g2] show ?case by simp
qed

lemma unique_id_owner:
  assumes "distinct (map p_id docs)" and "p \<in> set docs"
  shows "\<forall>q \<in> set docs. p_id q = p_id p \<longrightarrow> createdBy q = createdBy p"
proof (intro ballI impI)
  fix q assume "q \<in> set docs" and "p_id q = p_id p"
  with assms have "q = p"
    by (meson distinct_map inj_onD)
  then show "createdBy q = createdBy p" by simp
qed

lemma handle_stamps:
  assumes old: "\<forall>p \<in> set docs. updatedAt p \<le> t0"
    and up: "t0 \<le> t1"
    and rd: "\<forall>t \<in> set (readings [r]). t \<le> t1"
  shows "\<forall>p \<in> set (snd (handle cast docs r)). updatedAt p \<le> t1"
proof (intro ballI)
  fix q assume q: "q \<in> set (snd (handle cast docs r))"
  from old up have old': "\<forall>p \<in> set docs. updatedAt p \<le> t1" by auto
  show "updatedAt q \<le> t1"
  proof (cases r)
    case GetAll
    with q old' show ?thesis by simp
  next
    case (GetOne rid)
    with q old' show ?thesis by simp
  next
    case (GetMine uid)
    with q old' show ?thesis by simp
  next
    case (Post uid b nid now)
    with rd have "now \<le> t1" by simp
    then have "updatedAt (new_Product b uid nid now) \<le> t1" by (simp add: new_Product_def)
    with q Post old' post_product_cases [of docs uid b nid now] show ?thesis by auto
  next
    case (Put rid uid b now)
    with rd have now: "now \<le> t1" by simp
    from q Put have q': "q \<in> set (snd (put_product cast docs rid uid b now))" by simp
    have "q \<in> set docs \<or> (\<exists>x \<in> set docs. q = apply_update b now x)"
    proof (rule disjE [OF put_product_cases [of cast docs rid uid b now]])
      assume "snd (put_product cast docs rid uid b now) = docs"
      with q' show ?thesis by simp
    next
      assume "\<exists>k. snd (put_product cast docs rid uid b now) =
        update_first (\<lambda>q. p_id q = k) (apply_update b now) docs"
      then obtain k' where "snd (put_product cast docs rid uid b now) =
        update_first (\<lambda>q. p_id q = k') (apply_update b now) docs" by blast
      with q' have "q \<in> set (update_first (\<lambda>q. p_id q = k') (apply_update b now) docs)"
        by simp
      then show ?thesis by (rule set_update_first)
    qed
    with old' now show ?thesis by (auto simp: apply_update_frame)
  next
    case (Delete rid uid)
    from q Delete have q': "q \<in> set (snd (delete_product cast docs rid uid))" by simp
    have "q \<in> set docs"
    proof (rule disjE [OF delete_product_cases [of cast docs rid uid]])
      assume "snd (delete_product cast docs rid uid) = docs"
      with q' show ?thesis by simp
    next
      assume "\<exists>P. snd (delete_product cast docs rid uid) = remove_first P docs"
      then obtain P where "snd (delete_product cast docs rid uid) = remove_first P docs"
        by blast
      with q' have "q \<in> set (remove_first P docs)" by simp
      then show ?thesis by (rule set_remove_first)
    qed
    with old' show ?thesis by simp
  qed
qed

lemma readings_Cons: "readings (r # rs) = readings [r] @ readings rs"
  by (cases r) simp_all

text \<open>
  Under a clock that never runs backwards, no stored \<open>updatedAt\<close> lies ahead of the last
  reading: the stamps of the collection stay below it through any sequence of requests.
\<close>

lemma stamps_behind_clock:
  "\<forall>p \<in> set docs. updatedAt p \<le> t0 \<Longrightarrow> sorted (t0 # readings rs) \<Longrightarrow>
     \<forall>p \<in> set (run cast docs rs). updatedAt p \<le> last (t0 # readings rs)"
proof (induction rs arbitrary: docs t0)
  case Nil
  then show ?case by simp
next
  case (Cons r rs)
  let ?t1 = "last (t0 # readings [r])"
  from Cons.prems(2) have s: "sorted (t0 # readings [r] @ readings rs)"
    unfolding readings_Cons [of r rs] .
  from s have up: "t0 \<le> ?t1"
    by (cases r) simp_all
  have rd: "\<forall>t \<in> set (readings [r]). t \<le> ?t1"
    by (cases r) simp_all
  from handle_stamps [OF Cons.prems(1) up rd]
  have h: "\<forall>p \<in> set (snd (handle cast docs r)). updatedAt p \<le> ?t1" .
  from s have s': "sorted (?t1 # readings rs)"
    by (cases r) simp_all
  have l: "last (?t1 # readings rs) = last (t0 # readings (r # rs))"
    by (cases r) simp_all
  from Cons.IH [OF h s'] l show ?case by simp
qed

lemma update_after_history:
  assumes "\<forall>p \<in> set docs. updatedAt p \<le> t0" and "sorted (t0 # readings rs @ [now])"
    and "p \<in> set (run cast docs rs)"
  shows "updatedAt p \<le> now"
proof -
  from assms(2) have s: "sorted (t0 # readings rs)" and l: "last (t0 # readings rs) \<le> now"
    by (auto simp: sorted_append)
  from stamps_behind_clock [OF assms(1) s] assms(3)
  have "updatedAt p \<le> last (t0 # readings rs)" by blast
  with l show ?thesis by simp
qed

lemma bob_chair_found:
  "findById hex24 [alice_laptop, bob_chair] ''64b000000000000000000002'' = Inr (Some bob_chair)"
  by (simp add: findById_def hex24_def alice_laptop_def bob_chair_def)

text \<open>
  C4. (a) When the request id resolves to a stored product \<open>p\<close> and the caller is its
  owner, the update succeeds (200); the product then stored under that id is \<open>p\<close> with the
  body's fields and \<open>updatedAt = now\<close>, the clock reading of the update. So the new
  \<open>updatedAt\<close> is at least the previous one exactly when that reading is not earlier than
  it (\<open>update_after_history\<close>: always, under a clock that never runs backwards);
  \<open>createdBy\<close> and the id are those of \<open>p\<close>. (b) In a collection with unique ids, after any
  sequence of requests by any callers in which the driver does not generate the id of \<open>p\<close>
  anew, every stored product with the id of \<open>p\<close> still has \<open>createdBy p\<close> as its creator.
\<close>

theorem update_keeps_identity:
  "(findById cast docs rid = Inr (Some p) \<and> createdBy p = uid \<longrightarrow>
      fst (put_product cast docs rid uid b now) =
        \<lparr>status = 200,
         body = MessageProductJson ''Product updated successfully''
                  (Some (apply_update b now p))\<rparr> \<and>
      findById cast (snd (put_product cast docs rid uid b now)) rid =
        Inr (Some (apply_update b now p)) \<and>
      updatedAt (apply_update b now p) = now \<and>
      (updatedAt p \<le> updatedAt (apply_update b now p) \<longleftrightarrow> updatedAt p \<le> now) \<and>
      createdBy (apply_update b now p) = createdBy p \<and>
      p_id (apply_update b now p) = p_id p) \<and>
   (distinct (map p_id docs) \<and> p \<in> set docs \<and> p_id p \<notin> set (generated rs) \<and>
    p' \<in> set (run cast docs rs) \<and> p_id p' = p_id p \<longrightarrow>
      createdBy p' = createdBy p)"
proof (intro conjI impI)
  assume a: "findById cast docs rid = Inr (Some p) \<and> createdBy p = uid"
  from findById_Some [of cast docs rid p] a
  have k: "cast rid = Some (p_id p)" and f: "find (\<lambda>q. p_id q = p_id p) docs = Some p"
    by simp_all
  from a have put: "put_product cast docs rid uid b now =
      (\<lparr>status = 200,
        body = MessageProductJson ''Product updated successfully'' (Some (apply_update b now p))\<rparr>,
       update_first (\<lambda>q. p_id q = p_id p) (apply_update b now) docs)"
    by (simp add: put_found [where cast = cast and rid = rid, OF k f])
  then show "fst (put_product cast docs rid uid b now) =
        \<lparr>status = 200,
         body = MessageProductJson ''Product updated successfully''
                  (Some (apply_update b now p))\<rparr>"
    by simp
  from find_update_first [OF f, of "apply_update b now"]
  have "find (\<lambda>q. p_id q = p_id p)
          (update_first (\<lambda>q. p_id q = p_id p) (apply_update b now) docs) =
        Some (apply_update b now p)"
    by (simp add: apply_update_frame)
  with k put show "findById cast (snd (put_product cast docs rid uid b now)) rid =
        Inr (Some (apply_update b now p))"
    by (simp add: findById_def)
  show "updatedAt (apply_update b now p) = now"
    by (simp add: apply_update_frame)
  show "(updatedAt p \<le> updatedAt (apply_update b now p)) = (updatedAt p \<le> now)"
    by (simp add: apply_update_frame)
  show "createdBy (apply_update b now p) = createdBy p"
    by (simp add: apply_update_frame)
  show "p_id (apply_update b now p) = p_id p"
    by (simp add: apply_update_frame)
next
  assume b: "distinct (map p_id docs) \<and> p \<in> set docs \<and> p_id p \<notin> set (generated rs) \<and>
    p' \<in> set (run cast docs rs) \<and> p_id p' = p_id p"
  then have "distinct (map p_id docs)" and "p \<in> set docs" by simp_all
  then have inv: "\<forall>q \<in> set docs. p_id q = p_id p \<longrightarrow> createdBy q = createdBy p"
    by (rule unique_id_owner)
  from b have g: "p_id p \<notin> set (generated rs)" by simp
  from run_keeps_owner [OF inv g, of cast] b show "createdBy p' = createdBy p"
    by simp
qed

theorem update_keeps_identity_witness:
  "findById hex24 [alice_laptop, bob_chair] ''64b000000000000000000001'' = Inr (Some alice_laptop) \<and>
   createdBy alice_laptop = ''alice'' \<and>
   fst (put_product hex24 [alice_laptop, bob_chair] ''64b000000000000000000001'' ''alice'' new_price 3000) =
     \<lparr>status = 200,
      body = MessageProductJson ''Product updated successfully''
               (Some (apply_update new_price 3000 alice_laptop))\<rparr> \<and>
   findById hex24
       (snd (put_product hex24 [alice_laptop, bob_chair] ''64b000000000000000000001'' ''alice''
               new_price 3000))
       ''64b000000000000000000001'' =
     Inr (Some (apply_update new_price 3000 alice_laptop)) \<and>
   updatedAt (apply_update new_price 3000 alice_laptop) = 3000 \<and>
   updatedAt alice_laptop = 1000 \<and>
   distinct (map p_id [alice_laptop, bob_chair]) \<and>
   alice_laptop \<in> set [alice_laptop, bob_chair] \<and>
   p_id alice_laptop \<notin> set (generated some_requests) \<and>
   run hex24 [alice_laptop, bob_chair] some_requests =
     [apply_update new_price 3000 alice_laptop,
      new_Product new_price ''bob'' ''64b000000000000000000003'' 7000] \<and>
   apply_update new_price 3000 alice_laptop
     \<in> set (run hex24 [alice_laptop, bob_chair] some_requests) \<and>
   p_id (apply_update new_price 3000 alice_laptop) = p_id alice_laptop \<and>
   createdBy (apply_update new_price 3000 alice_laptop) = createdBy alice_laptop"
proof -
  have own: "createdBy alice_laptop = ''alice''" and old: "updatedAt alice_laptop = 1000"
    by (simp_all add: alice_laptop_def)
  have d: "distinct (map p_id [alice_laptop, bob_chair])"
    by (simp add: alice_laptop_def bob_chair_def)
  have m: "alice_laptop \<in> set [alice_laptop, bob_chair]"
    by simp
  have g: "p_id alice_laptop \<notin> set (generated some_requests)"
    by (simp add: some_requests_def alice_laptop_def)
  have r: "run hex24 [alice_laptop, bob_chair] some_requests =
     [apply_update new_price 3000 alice_laptop,
      new_Product new_price ''bob'' ''64b000000000000000000003'' 7000]"
    by (simp add: some_requests_def put_product_def delete_product_def post_product_def
        findById_def findByIdAndUpdate_def deleteOne_def save_def valid_product_def hex24_def
        new_Product_def apply_update_def alice_laptop_def bob_chair_def new_price_def)
  have i: "p_id (apply_update new_price 3000 alice_laptop) = p_id alice_laptop"
    by (simp add: apply_update_def)
  have mem: "apply_update new_price 3000 alice_laptop
     \<in> set (run hex24 [alice_laptop, bob_chair] some_requests)"
    by (simp add: r)
  note t = update_keeps_identity [of hex24 "[alice_laptop, bob_chair]"
      "''64b000000000000000000001''" alice_laptop "''alice''" new_price 3000 some_requests
      "apply_update new_price 3000 alice_laptop"]
  from t alice_laptop_found own d m g mem i
  have "fst (put_product hex24 [alice_laptop, bob_chair] ''64b000000000000000000001'' ''alice'' new_price 3000) =
     \<lparr>status = 200,
      body = MessageProductJson ''Product updated successfully''
               (Some (apply_update new_price 3000 alice_laptop))\<rparr> \<and>
   findById hex24
       (snd (put_product hex24 [alice_laptop, bob_chair] ''64b000000000000000000001'' ''alice''
               new_price 3000))
       ''64b000000000000000000001'' =
     Inr (Some (apply_update new_price 3000 alice_laptop)) \<and>
   updatedAt (apply_update new_price 3000 alice_laptop) = 3000 \<and>
   createdBy (apply_update new_price 3000 alice_laptop) = createdBy alice_laptop"
    by blast
  with alice_laptop_found own old d m g r mem i show ?thesis
    by blast
qed

text \<open>
  The handler never reads the stored stamp: with a clock reading of 2000 (a clock set
  back, or the clock of another server) the owner's update of a product stamped 2500
  succeeds and leaves it with the smaller \<open>updatedAt\<close>.
\<close>

theorem update_under_a_late_clock:
  "findById hex24 [alice_laptop, bob_chair] ''64b000000000000000000002'' = Inr (Some bob_chair) \<and>
   createdBy bob_chair = ''bob'' \<and>
   updatedAt bob_chair = 2500 \<and>
   put_product hex24 [alice_laptop, bob_chair] ''64b000000000000000000002'' ''bob'' new_price 2000 =
     (\<lparr>status = 200,
       body = MessageProductJson ''Product updated successfully''
                (Some (apply_update new_price 2000 bob_chair))\<rparr>,
      [alice_laptop, apply_update new_price 2000 bob_chair]) \<and>
   updatedAt (apply_update new_price 2000 bob_chair) = 2000 \<and>
   \<not> updatedAt bob_chair \<le> updatedAt (apply_update new_price 2000 bob_chair)"
proof -
  have k: "hex24 ''64b000000000000000000002'' = Some ''64b000000000000000000002''"
    by (simp add: hex24_def)
  have f: "find (\<lambda>p. p_id p = ''64b000000000000000000002'') [alice_laptop, bob_chair] = Some bob_chair"
    by (simp add: alice_laptop_def bob_chair_def)
  have ids: "p_id alice_laptop \<noteq> ''64b000000000000000000002''"
    "p_id bob_chair = ''64b000000000000000000002''"
    by (simp_all add: alice_laptop_def bob_chair_def)
  have own: "createdBy bob_chair = ''bob''" and old: "updatedAt bob_chair = 2500"
    by (simp_all add: bob_chair_def)
  have new: "updatedAt (apply_update new_price 2000 bob_chair) = 2000"
    by (simp add: apply_update_def)
  from put_found [where cast = hex24 and rid = "''64b000000000000000000002''", OF k f,
      of "''bob''" new_price 2000] own ids
  have "put_product hex24 [alice_laptop, bob_chair] ''64b000000000000000000002'' ''bob'' new_price 2000 =
     (\<lparr>status = 200,
       body = MessageProductJson ''Product updated successfully''
                (Some (apply_update new_price 2000 bob_chair))\<rparr>,
      [alice_laptop, apply_update new_price 2000 bob_chair])"
    by simp
  with bob_chair_found own old new show ?thesis by simp
qed

section \<open>Properties of the product page and the mock service\<close>

lemma by_category_subseq: "subseq (by_category filters result) result"
  by (simp add: by_category_def)

lemma by_minPrice_subseq: "subseq (by_minPrice filters result) result"
  by (simp add: by_minPrice_def)

lemma by_maxPrice_subseq: "subseq (by_maxPrice filters result) result"
  by (simp add: by_maxPrice_def)

lemma by_minRating_subseq: "subseq (by_minRating filters result) result"
  by (simp add: by_minRating_def)

lemma by_search_subseq: "subseq (by_search filters result) result"
  by (simp add: by_search_def Let_def)

text \<open>
  C10. For every product list and every filter value, the filtered view is a subsequence
  of the list: nothing is added, duplicated or reordered.
\<close>

theorem filtered_view_is_subsequence: "subseq (filteredProducts filters ps) ps"
proof -
  let ?a = "by_category filters ps"
  let ?b = "by_minPrice filters ?a"
  let ?c = "by_maxPrice filters ?b"
  let ?d = "by_minRating filters ?c"
  have "subseq (by_search filters ?d) ?d" by (rule by_search_subseq)
  also have "subseq ?d ?c" by (rule by_minRating_subseq)
  also have "subseq ?c ?b" by (rule by_maxPrice_subseq)
  also have "subseq ?b ?a" by (rule by_minPrice_subseq)
  also have "subseq ?a ps" by (rule by_category_subseq)
  finally show ?thesis by (simp add: filteredProducts_def)
qed

text \<open>The effect meets the spec's criteria except for a zero upper price bound or an empty category.\<close>

lemma filteredProducts_meets_spec:
  assumes "maxPrice filters \<noteq> Some 0" and "fo_category filters \<noteq> Some []"
  shows "filteredProducts filters ps = filter (spec_matches filters) ps"
proof -
  have c: "by_category filters xs =
      filter (\<lambda>p. case fo_category filters of None \<Rightarrow> True | Some c \<Rightarrow> c_category p = c) xs" for xs
    using assms(2) by (cases "fo_category filters") (auto simp: by_category_def)
  have lo: "by_minPrice filters xs =
      filter (\<lambda>p. case minPrice filters of None \<Rightarrow> True | Some l \<Rightarrow> l \<le> c_price p) xs" for xs
    by (cases "minPrice filters") (auto simp: by_minPrice_def)
  have hi: "by_maxPrice filters xs =
      filter (\<lambda>p. case maxPrice filters of None \<Rightarrow> True | Some h \<Rightarrow> c_price p \<le> h) xs" for xs
    using assms(1) by (cases "maxPrice filters") (auto simp: by_maxPrice_def)
  have r: "by_minRating filters xs =
      filter (\<lambda>p. case minRating filters of None \<Rightarrow> True | Some l \<Rightarrow> l \<le> c_rating p) xs" for xs
    by (cases "minRating filters") (auto simp: by_minRating_def)
  have s: "by_search filters xs =
      filter (\<lambda>p. search filters = [] \<or>
        str_includes (toLowerCase (c_name p)) (toLowerCase (search filters)) \<or>
        str_includes (toLowerCase (c_description p)) (toLowerCase (search filters))) xs" for xs
    by (simp add: by_search_def Let_def)
  show ?thesis
    unfolding filteredProducts_def c lo hi r s
    by (simp add: spec_matches_def conj_commute conj_left_commute cong: filter_cong)
qed

lemma lower_names:
  "toLowerCase (c_name cheap) = ''desk lamp''" "toLowerCase (c_description cheap) = ''warm light''"
  "toLowerCase (c_name middle) = ''office chair''" "toLowerCase (c_description middle) = ''lumbar support''"
  "toLowerCase (c_name dear) = ''smart tv''" "toLowerCase (c_description dear) = ''qled display''"
  "toLowerCase ''xyz'' = ''xyz''" "toLowerCase ''CHAIR'' = ''chair''"
  by (simp_all add: toLowerCase_def toLowerChar_def cheap_def middle_def dear_def)

text \<open>The example of the spec: prices 100, 500 and 1500 under the bounds 400 and 1000.\<close>

lemma filteredProducts_price_example:
  "filteredProducts (no_filter\<lparr>minPrice := Some 400, maxPrice := Some 1000\<rparr>) [cheap, middle, dear]
     = [middle] \<and>
   filteredProducts (no_filter\<lparr>minPrice := Some 400, maxPrice := Some 1000, search := ''xyz''\<rparr>)
     [cheap, middle, dear] = [] \<and>
   filteredProducts (no_filter\<lparr>search := ''xyz''\<rparr>) [cheap, middle, dear] = [] \<and>
   filteredProducts (no_filter\<lparr>search := ''CHAIR''\<rparr>) [cheap, middle, dear] = [middle]"
  by (simp add: filteredProducts_def by_category_def by_minPrice_def by_maxPrice_def
      by_minRating_def by_search_def no_filter_def lower_names str_includes_def sublist_code
      Let_def)
    (simp add: cheap_def middle_def dear_def)

text \<open>
  C6. The filtered view is meant to hold exactly the products that meet all active
  criteria, the price bounds being inclusive whenever they are not \<open>null\<close>. The effect
  misses one case, which the price slider can produce: \<open>filters.maxPrice || Infinity\<close>
  turns the bound \<open>0\<close> into \<open>Infinity\<close>. With \<open>minPrice = 0\<close> and \<open>maxPrice = 0\<close> it keeps
  the products priced 100, 500 and 1500, none of which meets the criteria.
\<close>

theorem zero_max_price_is_ignored:
  "filteredProducts (no_filter\<lparr>minPrice := Some 0, maxPrice := Some 0\<rparr>) [cheap, middle, dear]
     = [cheap, middle, dear] \<and>
   filter (spec_matches (no_filter\<lparr>minPrice := Some 0, maxPrice := Some 0\<rparr>)) [cheap, middle, dear]
     = []"
  by (simp add: filteredProducts_def by_category_def by_minPrice_def by_maxPrice_def
      by_minRating_def by_search_def no_filter_def spec_matches_def cheap_def middle_def dear_def)

lemma findIndex_ge: "- 1 \<le> findIndex P xs"
  by (induction xs) (auto simp: Let_def)

lemma findIndex_none: "findIndex P xs = - 1 \<longleftrightarrow> \<not> (\<exists>x \<in> set xs. P x)"
proof (induction xs)
  case Nil
  then show ?case by simp
next
  case (Cons x xs)
  have "findIndex P xs + 1 \<noteq> - 1"
    using findIndex_ge [of P xs] by arith
  with Cons show ?case by (auto simp: Let_def)
qed

lemma findIndex_first:
  "\<forall>y \<in> set ys. \<not> P y \<Longrightarrow> P p \<Longrightarrow> findIndex P (ys @ p # zs) = int (length ys)"
proof (induction ys)
  case Nil
  then show ?case by simp
next
  case (Cons y ys)
  then have "findIndex P (ys @ p # zs) = int (length ys)" by simp
  with Cons.prems show ?case by (simp add: Let_def)
qed

lemma splice1_middle: "splice1 (int (length ys)) (ys @ p # zs) = ys @ zs"
  by (simp add: splice1_def)

lemma deleteProduct_absent:
  "ident \<notin> set (map c_id ps) \<Longrightarrow> deleteProduct ident ps = (Rejected ''Product not found'', ps)"
proof -
  assume "ident \<notin> set (map c_id ps)"
  then have "\<not> (\<exists>x \<in> set ps. c_id x = ident)" by auto
  then have "findIndex (\<lambda>p. c_id p = ident) ps = - 1" by (simp add: findIndex_none)
  then show ?thesis by (simp add: deleteProduct_def)
qed

lemma updateProduct_absent:
  "ident \<notin> set (map c_id ps) \<Longrightarrow>
     updateProduct ident data now ps = (Rejected ''Product not found'', ps)"
proof -
  assume "ident \<notin> set (map c_id ps)"
  then have "\<not> (\<exists>x \<in> set ps. c_id x = ident)" by auto
  then have "findIndex (\<lambda>p. c_id p = ident) ps = - 1" by (simp add: findIndex_none)
  then show ?thesis by (simp add: updateProduct_def)
qed

text \<open>
  C9. When some product of the store has the id, \<open>deleteProduct\<close> resolves \<open>true\<close> and the
  store loses exactly the first product with that id: the store was \<open>ys @ p # zs\<close> with
  \<open>p\<close> the first match, and becomes \<open>ys @ zs\<close>. When no product has the id, the promise is
  rejected and the store is what it was.
\<close>

theorem deleteProduct_removes_first_match:
  "(ident \<in> set (map c_id ps) \<longrightarrow>
      (\<exists>ys p zs. ps = ys @ p # zs \<and> c_id p = ident \<and> ident \<notin> set (map c_id ys) \<and>
         deleteProduct ident ps = (Resolved True, ys @ zs))) \<and>
   (ident \<notin> set (map c_id ps) \<longrightarrow>
      deleteProduct ident ps = (Rejected ''Product not found'', ps))"
proof (intro conjI impI)
  assume "ident \<in> set (map c_id ps)"
  then have "\<exists>x \<in> set ps. c_id x = ident" by auto
  from split_list_first_prop [OF this]
  obtain ys p zs where ps: "ps = ys @ p # zs" and p: "c_id p = ident"
    and ys: "\<forall>y \<in> set ys. c_id y \<noteq> ident"
    by blast
  from ys p have i: "findIndex (\<lambda>q. c_id q = ident) (ys @ p # zs) = int (length ys)"
    by (intro findIndex_first) simp_all
  have "deleteProduct ident (ys @ p # zs) = (Resolved True, ys @ zs)"
    unfolding deleteProduct_def i Let_def
    by (simp add: splice1_middle)
  with ps have d: "deleteProduct ident ps = (Resolved True, ys @ zs)" by simp
  from ys have a: "ident \<notin> set (map c_id ys)" by auto
  from ps p a d show "\<exists>ys p zs. ps = ys @ p # zs \<and> c_id p = ident \<and>
      ident \<notin> set (map c_id ys) \<and> deleteProduct ident ps = (Resolved True, ys @ zs)"
    by blast
next
  assume "ident \<notin> set (map c_id ps)"
  then show "deleteProduct ident ps = (Rejected ''Product not found'', ps)"
    by (rule deleteProduct_absent)
qed

lemma client_ids: "c_id cheap = ''1''" "c_id middle = ''2''" "c_id dear = ''3''"
  by (simp_all add: cheap_def middle_def dear_def)

theorem deleteProduct_removes_first_match_witness:
  "''2'' \<in> set (map c_id [cheap, middle, dear, middle]) \<and>
   (\<exists>ys p zs. [cheap, middle, dear, middle] = ys @ p # zs \<and> c_id p = ''2'' \<and>
      ''2'' \<notin> set (map c_id ys) \<and>
      deleteProduct ''2'' [cheap, middle, dear, middle] = (Resolved True, ys @ zs)) \<and>
   deleteProduct ''2'' [cheap, middle, dear, middle] = (Resolved True, [cheap, dear, middle]) \<and>
   ''7'' \<notin> set (map c_id [cheap, middle, dear, middle]) \<and>
   deleteProduct ''7'' [cheap, middle, dear, middle] =
     (Rejected ''Product not found'', [cheap, middle, dear, middle])"
proof -
  have here: "''2'' \<in> set (map c_id [cheap, middle, dear, middle])"
    and gone: "''7'' \<notin> set (map c_id [cheap, middle, dear, middle])"
    by (simp_all add: client_ids)
  note t = deleteProduct_removes_first_match [of "''2''" "[cheap, middle, dear, middle]"]
  note u = deleteProduct_removes_first_match [of "''7''" "[cheap, middle, dear, middle]"]
  have ex: "\<exists>ys p zs. [cheap, middle, dear, middle] = ys @ p # zs \<and> c_id p = ''2'' \<and>
      ''2'' \<notin> set (map c_id ys) \<and>
      deleteProduct ''2'' [cheap, middle, dear, middle] = (Resolved True, ys @ zs)"
    using t here by blast
  have rej: "deleteProduct ''7'' [cheap, middle, dear, middle] =
     (Rejected ''Product not found'', [cheap, middle, dear, middle])"
    using u gone by blast
  have run: "deleteProduct ''2'' [cheap, middle, dear, middle] = (Resolved True, [cheap, dear, middle])"
    by (simp add: deleteProduct_def splice1_def client_ids)
  from here gone ex rej run show ?thesis by blast
qed

lemma updateProduct_rejected:
  "fst (updateProduct ident data now ps) = Rejected e \<Longrightarrow>
     updateProduct ident data now ps = (Rejected ''Product not found'', ps)"
  by (simp add: updateProduct_def Let_def split: if_splits)

lemma deleteProduct_rejected:
  "fst (deleteProduct ident ps) = Rejected e \<Longrightarrow>
     deleteProduct ident ps = (Rejected ''Product not found'', ps)"
  by (simp add: deleteProduct_def Let_def split: if_splits)

lemma createProduct_resolves: "\<exists>p. fst (createProduct data n t1 t2 ps) = Resolved p"
  unfolding createProduct_def Let_def fst_conv
  by (rule exI) (rule refl)

lemma submit_update_rejected:
  assumes "currentProduct w = Some cp"
    and "fst (updateProduct (c_id cp) data t1 (mockProducts w)) = Rejected e"
  shows "handleProductSubmit data n t1 t2 w =
           w\<lparr>toasts := toasts w @ [Error ''Failed to update product''], isSubmitting := False\<rparr>"
  using assms(1) updateProduct_rejected [OF assms(2)]
  by (simp add: handleProductSubmit_def)

lemma confirm_delete_rejected:
  assumes "productToDelete w = Some ident" and "ident \<noteq> []"
    and "fst (deleteProduct ident (mockProducts w)) = Rejected e"
  shows "confirmDelete w =
           w\<lparr>toasts := toasts w @ [Error ''Failed to delete product''],
             isDeleteDialogOpen := False, productToDelete := None\<rparr>"
  using assms(1,2) deleteProduct_rejected [OF assms(3)]
  by (simp add: confirmDelete_def)

text \<open>
  C7. When the service call of the submit handler (an update of the current product) or of
  the delete handler is rejected, the page's product state is what it was: neither the
  reference held in \<open>products\<close> nor the array of the service changes, and the handler only
  adds an error toast and resets its flags. The mock \<open>createProduct\<close> never rejects, so the
  create path always takes the success branch; \<open>setProducts\<close> runs in the success branches
  only.
\<close>

theorem rejected_call_keeps_products:
  "(currentProduct w = Some cp \<and>
    fst (updateProduct (c_id cp) data t1 (mockProducts w)) = Rejected e \<longrightarrow>
      handleProductSubmit data n t1 t2 w =
        w\<lparr>toasts := toasts w @ [Error ''Failed to update product''], isSubmitting := False\<rparr> \<and>
      products (handleProductSubmit data n t1 t2 w) = products w \<and>
      mockProducts (handleProductSubmit data n t1 t2 w) = mockProducts w \<and>
      product_state (handleProductSubmit data n t1 t2 w) = product_state w) \<and>
   (productToDelete w = Some ident \<and> ident \<noteq> [] \<and>
    fst (deleteProduct ident (mockProducts w)) = Rejected e' \<longrightarrow>
      confirmDelete w =
        w\<lparr>toasts := toasts w @ [Error ''Failed to delete product''],
          isDeleteDialogOpen := False, productToDelete := None\<rparr> \<and>
      products (confirmDelete w) = products w \<and>
      mockProducts (confirmDelete w) = mockProducts w \<and>
      product_state (confirmDelete w) = product_state w) \<and>
   (\<exists>p. fst (createProduct data n t1 t2 (mockProducts w)) = Resolved p)"
proof (intro conjI impI)
  assume a: "currentProduct w = Some cp \<and>
    fst (updateProduct (c_id cp) data t1 (mockProducts w)) = Rejected e"
  then have c: "currentProduct w = Some cp"
    and r: "fst (updateProduct (c_id cp) data t1 (mockProducts w)) = Rejected e"
    by simp_all
  from submit_update_rejected [OF c r]
  have h: "handleProductSubmit data n t1 t2 w =
        w\<lparr>toasts := toasts w @ [Error ''Failed to update product''], isSubmitting := False\<rparr>" .
  from h show "handleProductSubmit data n t1 t2 w =
        w\<lparr>toasts := toasts w @ [Error ''Failed to update product''], isSubmitting := False\<rparr>" .
  from h show "products (handleProductSubmit data n t1 t2 w) = products w" by simp
  from h show "mockProducts (handleProductSubmit data n t1 t2 w) = mockProducts w" by simp
  from h show "product_state (handleProductSubmit data n t1 t2 w) = product_state w"
    by (simp add: product_state_def split: products_ref.split)
next
  assume a: "productToDelete w = Some ident \<and> ident \<noteq> [] \<and>
    fst (deleteProduct ident (mockProducts w)) = Rejected e'"
  then have c: "productToDelete w = Some ident" and ne: "ident \<noteq> []"
    and r: "fst (deleteProduct ident (mockProducts w)) = Rejected e'"
    by simp_all
  from confirm_delete_rejected [OF c ne r]
  have h: "confirmDelete w =
        w\<lparr>toasts := toasts w @ [Error ''Failed to delete product''],
          isDeleteDialogOpen := False, productToDelete := None\<rparr>" .
  from h show "confirmDelete w =
        w\<lparr>toasts := toasts w @ [Error ''Failed to delete product''],
          isDeleteDialogOpen := False, productToDelete := None\<rparr>" .
  from h show "products (confirmDelete w) = products w" by simp
  from h show "mockProducts (confirmDelete w) = mockProducts w" by simp
  from h show "product_state (confirmDelete w) = product_state w"
    by (simp add: product_state_def split: products_ref.split)
next
  show "\<exists>p. fst (createProduct data n t1 t2 (mockProducts w)) = Resolved p"
    by (rule createProduct_resolves)
qed

theorem rejected_call_keeps_products_witness:
  "currentProduct stale_page = Some dear \<and>
   fst (updateProduct (c_id dear) form_data ''2024-01-01T00:00:00Z'' (mockProducts stale_page)) =
     Rejected ''Product not found'' \<and>
   product_state (handleProductSubmit form_data 42 ''2024-01-01T00:00:00Z'' ''2024-01-01T00:00:01Z''
                    stale_page) = [cheap, middle] \<and>
   product_state stale_page = [cheap, middle] \<and>
   toasts (handleProductSubmit form_data 42 ''2024-01-01T00:00:00Z'' ''2024-01-01T00:00:01Z''
             stale_page) = [Error ''Failed to update product''] \<and>
   productToDelete stale_page = Some ''3'' \<and>
   ''3'' \<noteq> [] \<and>
   fst (deleteProduct ''3'' (mockProducts stale_page)) = Rejected ''Product not found'' \<and>
   product_state (confirmDelete stale_page) = [cheap, middle] \<and>
   toasts (confirmDelete stale_page) = [Error ''Failed to delete product'']"
proof -
  have ids: "c_id cheap = ''1''" "c_id middle = ''2''" "c_id dear = ''3''"
    by (simp_all add: cheap_def middle_def dear_def)
  have cur: "currentProduct stale_page = Some dear" and del: "productToDelete stale_page = Some ''3''"
    and st: "product_state stale_page = [cheap, middle]"
    and mp: "mockProducts stale_page = [cheap, middle]"
    and ts: "toasts stale_page = []"
    by (simp_all add: stale_page_def product_state_def)
  have u: "fst (updateProduct (c_id dear) form_data ''2024-01-01T00:00:00Z'' (mockProducts stale_page)) =
     Rejected ''Product not found''"
    by (simp add: mp updateProduct_def ids)
  have d: "fst (deleteProduct ''3'' (mockProducts stale_page)) = Rejected ''Product not found''"
    by (simp add: mp deleteProduct_def ids)
  note t = rejected_call_keeps_products [of stale_page dear form_data "''2024-01-01T00:00:00Z''"
      "''Product not found''" 42 "''2024-01-01T00:00:01Z''" "''3''" "''Product not found''"]
  from t cur u have a: "handleProductSubmit form_data 42 ''2024-01-01T00:00:00Z'' ''2024-01-01T00:00:01Z'' stale_page =
        stale_page\<lparr>toasts := toasts stale_page @ [Error ''Failed to update product''], isSubmitting := False\<rparr> \<and>
      product_state (handleProductSubmit form_data 42 ''2024-01-01T00:00:00Z'' ''2024-01-01T00:00:01Z'' stale_page) = product_state stale_page"
    by blast
  from t del d have b: "confirmDelete stale_page =
        stale_page\<lparr>toasts := toasts stale_page @ [Error ''Failed to delete product''],
          isDeleteDialogOpen := False, productToDelete := None\<rparr> \<and>
      product_state (confirmDelete stale_page) = product_state stale_page"
    by blast
  from a b cur del st u d show ?thesis
    by (elim conjE) (simp add: ts)
qed

section \<open>Properties of the authentication context\<close>

lemma login_taken:
  "writes_taken accepts e r a \<Longrightarrow>
     login accepts e pw r a =
       (True,
        a\<lparr>localStorage := (localStorage a)(''jwt_token'' \<mapsto> Text (''mock_jwt_token_'' @ r),
                                             ''user'' \<mapsto> UserJson \<lparr>u_id = ''1'', email = e\<rparr>),
          user := Some \<lparr>u_id = ''1'', email = e\<rparr>, token := Some (''mock_jwt_token_'' @ r),
          notices := notices a @ [Success ''Login successful!'']\<rparr>)"
  by (simp add: writes_taken_def login_def setItem_def Let_def)

lemma signup_taken:
  "writes_taken accepts e r a \<Longrightarrow>
     signup accepts e pw r a =
       (True,
        a\<lparr>localStorage := (localStorage a)(''jwt_token'' \<mapsto> Text (''mock_jwt_token_'' @ r),
                                             ''user'' \<mapsto> UserJson \<lparr>u_id = ''1'', email = e\<rparr>),
          user := Some \<lparr>u_id = ''1'', email = e\<rparr>, token := Some (''mock_jwt_token_'' @ r),
          notices := notices a @ [Success ''Account created successfully!'']\<rparr>)"
  by (simp add: writes_taken_def signup_def setItem_def Let_def)

lemma login_refused:
  "\<not> writes_taken accepts e r a \<Longrightarrow>
     fst (login accepts e pw r a) = False \<and>
     user (snd (login accepts e pw r a)) = user a \<and>
     token (snd (login accepts e pw r a)) = token a"
  by (auto simp: writes_taken_def login_def setItem_def Let_def)

lemma signup_refused:
  "\<not> writes_taken accepts e r a \<Longrightarrow>
     fst (signup accepts e pw r a) = False \<and>
     user (snd (signup accepts e pw r a)) = user a \<and>
     token (snd (signup accepts e pw r a)) = token a"
  by (auto simp: writes_taken_def signup_def setItem_def Let_def)

text \<open>
  C8. For every email, password, random suffix and prior state: when the browser takes
  both storage writes, \<open>login\<close> and \<open>signup\<close> return \<open>true\<close>, set the user to
  \<open>{id: '1', email}\<close> and the token to \<open>'mock_jwt_token_'\<close> followed by the random suffix;
  when it refuses one, they return \<open>false\<close> and leave user and token as they were. The
  password has no influence on the result either way, and no stored credential is read.
\<close>

theorem mock_auth_ignores_credentials:
  "(writes_taken accepts e r a \<longrightarrow>
      fst (login accepts e pw r a) = True \<and>
      user (snd (login accepts e pw r a)) = Some \<lparr>u_id = ''1'', email = e\<rparr> \<and>
      token (snd (login accepts e pw r a)) = Some (''mock_jwt_token_'' @ r) \<and>
      fst (signup accepts e pw r a) = True \<and>
      user (snd (signup accepts e pw r a)) = Some \<lparr>u_id = ''1'', email = e\<rparr> \<and>
      token (snd (signup accepts e pw r a)) = Some (''mock_jwt_token_'' @ r)) \<and>
   (\<not> writes_taken accepts e r a \<longrightarrow>
      fst (login accepts e pw r a) = False \<and>
      user (snd (login accepts e pw r a)) = user a \<and>
      token (snd (login accepts e pw r a)) = token a \<and>
      fst (signup accepts e pw r a) = False \<and>
      user (snd (signup accepts e pw r a)) = user a \<and>
      token (snd (signup accepts e pw r a)) = token a) \<and>
   login accepts e pw r a = login accepts e pw' r a \<and>
   signup accepts e pw r a = signup accepts e pw' r a"
proof (intro conjI impI)
  assume t: "writes_taken accepts e r a"
  show "fst (login accepts e pw r a) = True" by (simp add: login_taken [OF t])
  show "user (snd (login accepts e pw r a)) = Some \<lparr>u_id = ''1'', email = e\<rparr>"
    by (simp add: login_taken [OF t])
  show "token (snd (login accepts e pw r a)) = Some (''mock_jwt_token_'' @ r)"
    by (simp add: login_taken [OF t])
  show "fst (signup accepts e pw r a) = True" by (simp add: signup_taken [OF t])
  show "user (snd (signup accepts e pw r a)) = Some \<lparr>u_id = ''1'', email = e\<rparr>"
    by (simp add: signup_taken [OF t])
  show "token (snd (signup accepts e pw r a)) = Some (''mock_jwt_token_'' @ r)"
    by (simp add: signup_taken [OF t])
next
  assume n: "\<not> writes_taken accepts e r a"
  from login_refused [OF n, of pw] show "fst (login accepts e pw r a) = False"
    and "user (snd (login accepts e pw r a)) = user a"
    and "token (snd (login accepts e pw r a)) = token a"
    by simp_all
  from signup_refused [OF n, of pw] show "fst (signup accepts e pw r a) = False"
    and "user (snd (signup accepts e pw r a)) = user a"
    and "token (snd (signup accepts e pw r a)) = token a"
    by simp_all
next
  show "login accepts e pw r a = login accepts e pw' r a"
    by (simp add: login_def)
  show "signup accepts e pw r a = signup accepts e pw' r a"
    by (simp add: signup_def)
qed

lemma short_fits: "writes_taken (room_for 64) ''ann@example.org'' ''k3j2x'' signed_out"
  by (simp add: writes_taken_def room_for_def)

lemma long_refused: "\<not> writes_taken (room_for 64) long_email ''k3j2x'' signed_out"
  by (simp add: writes_taken_def room_for_def long_email_def)

theorem mock_auth_ignores_credentials_witness:
  "writes_taken (room_for 64) ''ann@example.org'' ''k3j2x'' signed_out \<and>
   fst (login (room_for 64) ''ann@example.org'' ''wrong password'' ''k3j2x'' signed_out) = True \<and>
   user (snd (login (room_for 64) ''ann@example.org'' ''wrong password'' ''k3j2x'' signed_out)) =
     Some \<lparr>u_id = ''1'', email = ''ann@example.org''\<rparr> \<and>
   token (snd (login (room_for 64) ''ann@example.org'' ''wrong password'' ''k3j2x'' signed_out)) =
     Some ''mock_jwt_token_k3j2x'' \<and>
   fst (signup (room_for 64) ''ann@example.org'' ''wrong password'' ''k3j2x'' signed_out) = True \<and>
   \<not> writes_taken (room_for 64) long_email ''k3j2x'' signed_out \<and>
   fst (login (room_for 64) long_email ''wrong password'' ''k3j2x'' signed_out) = False \<and>
   fst (signup (room_for 64) long_email ''wrong password'' ''k3j2x'' signed_out) = False"
  using mock_auth_ignores_credentials
      [of "room_for 64" "''ann@example.org''" "''k3j2x''" signed_out "''wrong password''"]
    mock_auth_ignores_credentials
      [of "room_for 64" long_email "''k3j2x''" signed_out "''wrong password''"]
    short_fits long_refused
  by simp

text \<open>
  An email too long for the room the browser has left: the write of the user throws, and
  \<open>login\<close> and \<open>signup\<close> return \<open>false\<close> without a user or a token.
\<close>

theorem login_fails_on_refused_write:
  "fst (login (room_for 64) long_email ''secret'' ''k3j2x'' signed_out) = False \<and>
   user (snd (login (room_for 64) long_email ''secret'' ''k3j2x'' signed_out)) = None \<and>
   token (snd (login (room_for 64) long_email ''secret'' ''k3j2x'' signed_out)) = None \<and>
   fst (signup (room_for 64) long_email ''secret'' ''k3j2x'' signed_out) = False \<and>
   user (snd (signup (room_for 64) long_email ''secret'' ''k3j2x'' signed_out)) = None \<and>
   token (snd (signup (room_for 64) long_email ''secret'' ''k3j2x'' signed_out)) = None"
  by (simp add: login_def signup_def setItem_def room_for_def long_email_def signed_out_def)

end
